theory Spec2Isabelle
  imports Main "HOL-Library.Code_Target_Nat"
begin

text \<open>
  A shallow embedding of the campaign client of VoteFlow: the execution console
  (\<^verbatim>\<open>Dashboard.jsx\<close> and its later revision) with its bounded log, its telemetry handler
  and its uploads, and the campaign wizard (\<^verbatim>\<open>PaymentModal\<close>) with its ingestion, payment
  verification, quota record and launch. React state is a record, every handler is a
  function from the state to the new state, and the replies of the network are arguments
  of the handlers.
\<close>

section \<open>JavaScript values used by the client\<close>

subsection \<open>Strings\<close>

text \<open>
  A JavaScript string is a sequence of UTF-16 code units; \<open>length\<close>, \<open>split\<close>, \<open>trim\<close>
  and the regular expressions of the source all work on code units. A string is therefore
  a list of code units (natural numbers); \<open>js\<close> embeds an ASCII literal.
\<close>

type_synonym jsstring = "nat list"

definition js :: "string \<Rightarrow> jsstring" where
  "js s = map of_char s"

text \<open>Decimal rendering of a non-negative integer inside a template literal.\<close>

fun show_nat :: "nat \<Rightarrow> jsstring" where
  "show_nat n = (if n < 10 then [48 + n] else show_nat (n div 10) @ [48 + n mod 10])"

declare show_nat.simps [simp del]

text \<open>\<^verbatim>\<open>s.startsWith(p)\<close>, \<^verbatim>\<open>s.endsWith(p)\<close>, \<^verbatim>\<open>s.includes(p)\<close>.\<close>

definition str_startsWith :: "jsstring \<Rightarrow> jsstring \<Rightarrow> bool" where
  "str_startsWith s p = (take (length p) s = p)"

definition str_endsWith :: "jsstring \<Rightarrow> jsstring \<Rightarrow> bool" where
  "str_endsWith s p = (length p \<le> length s \<and> drop (length s - length p) s = p)"

fun str_includes :: "jsstring \<Rightarrow> jsstring \<Rightarrow> bool" where
  "str_includes [] p = (p = [])"
| "str_includes (c # cs) p = (str_startsWith (c # cs) p \<or> str_includes cs p)"

text \<open>
  \<^verbatim>\<open>s.split(sep)\<close> for a separator of one code unit: the result always has at least one
  field, and an empty string gives one empty field.
\<close>

fun str_split :: "nat \<Rightarrow> jsstring \<Rightarrow> jsstring list" where
  "str_split sep [] = [[]]"
| "str_split sep (c # cs) =
     (if c = sep then [] # str_split sep cs
      else (case str_split sep cs of [] \<Rightarrow> [[c]] | f # fs \<Rightarrow> (c # f) # fs))"

text \<open>
  \<^verbatim>\<open>s.trim()\<close> removes white space and line terminators (ECMAScript \<open>WhiteSpace\<close> and
  \<open>LineTerminator\<close>) from both ends.
\<close>

definition isWhiteSpace :: "nat \<Rightarrow> bool" where
  "isWhiteSpace c =
     (c = 0x09 \<or> c = 0x0A \<or> c = 0x0B \<or> c = 0x0C \<or> c = 0x0D \<or> c = 0x20 \<or> c = 0xA0
      \<or> c = 0x1680 \<or> (0x2000 \<le> c \<and> c \<le> 0x200A) \<or> c = 0x2028 \<or> c = 0x2029
      \<or> c = 0x202F \<or> c = 0x205F \<or> c = 0x3000 \<or> c = 0xFEFF)"

definition str_trim :: "jsstring \<Rightarrow> jsstring" where
  "str_trim s = rev (dropWhile isWhiteSpace (rev (dropWhile isWhiteSpace s)))"

text \<open>
  \<^verbatim>\<open>s.toLowerCase()\<close>. The case mapping is modelled for the code units U+0000 to U+00FF;
  code units above that range are left as they are. The source only compares the result
  with the ASCII suffixes \<^verbatim>\<open>.pdf\<close>, \<^verbatim>\<open>.csv\<close>, \<^verbatim>\<open>.xlsx\<close> and \<^verbatim>\<open>.xls\<close>, whose letters are the
  lower case of ASCII letters only.
\<close>

definition lowerUnit :: "nat \<Rightarrow> nat" where
  "lowerUnit c =
     (if (0x41 \<le> c \<and> c \<le> 0x5A) \<or> (0xC0 \<le> c \<and> c \<le> 0xDE \<and> c \<noteq> 0xD7) then c + 0x20 else c)"

definition toLowerCase :: "jsstring \<Rightarrow> jsstring" where
  "toLowerCase s = map lowerUnit s"

text \<open>\<^verbatim>\<open>a || b\<close> on strings: the empty string and \<^verbatim>\<open>undefined\<close> are falsy.\<close>

definition str_or :: "jsstring \<Rightarrow> jsstring \<Rightarrow> jsstring" where
  "str_or a b = (if a = [] then b else a)"

definition opt_or :: "jsstring option \<Rightarrow> jsstring \<Rightarrow> jsstring" where
  "opt_or a b = (case a of None \<Rightarrow> b | Some v \<Rightarrow> str_or v b)"

text \<open>An optional value inside a template literal: \<^verbatim>\<open>undefined\<close> prints as its name.\<close>

definition show_opt :: "jsstring option \<Rightarrow> jsstring" where
  "show_opt a = (case a of None \<Rightarrow> js ''undefined'' | Some v \<Rightarrow> v)"

subsection \<open>Regular expressions\<close>

text \<open>
  The regular expressions of the source are sequences of quantified character classes,
  optionally anchored at either end. \<open>Rep cls lo hi\<close> is \<^verbatim>\<open>cls{lo,hi}\<close>; a literal
  character is a class of one code unit repeated exactly once. \<open>regex_test\<close> is
  \<^verbatim>\<open>RegExp.prototype.test\<close> without the \<^verbatim>\<open>m\<close> flag: \<^verbatim>\<open>$\<close> matches at the end of the input only.
\<close>

datatype cclass = Ranges "(nat \<times> nat) list" | NotRanges "(nat \<times> nat) list"

fun in_cclass :: "cclass \<Rightarrow> nat \<Rightarrow> bool" where
  "in_cclass (Ranges rs) c = list_ex (\<lambda>r. fst r \<le> c \<and> c \<le> snd r) rs"
| "in_cclass (NotRanges rs) c = (\<not> list_ex (\<lambda>r. fst r \<le> c \<and> c \<le> snd r) rs)"

datatype ritem = Rep cclass nat nat

definition Lit :: "char \<Rightarrow> ritem" where
  "Lit ch = Rep (Ranges [(of_char ch, of_char ch)]) 1 1"

record regex =
  from_start :: bool
  ritems :: "ritem list"
  to_end :: bool

fun match_items :: "ritem list \<Rightarrow> bool \<Rightarrow> jsstring \<Rightarrow> bool" where
  "match_items [] e s = (if e then s = [] else True)"
| "match_items (Rep cls lo hi # its) e s =
     list_ex (\<lambda>k. k \<le> length s \<and> list_all (in_cclass cls) (take k s)
                   \<and> match_items its e (drop k s)) [lo ..< Suc hi]"

declare match_items.simps [simp del]

definition regex_test :: "regex \<Rightarrow> jsstring \<Rightarrow> bool" where
  "regex_test r s =
     (if from_start r then match_items (ritems r) (to_end r) s
      else list_ex (\<lambda>i. match_items (ritems r) (to_end r) (drop i s)) [0 ..< Suc (length s)])"

text \<open>\<^verbatim>\<open>s.replace(/cls/g, rep)\<close> for a pattern that is one character class.\<close>

definition replace_all :: "cclass \<Rightarrow> jsstring \<Rightarrow> jsstring \<Rightarrow> jsstring" where
  "replace_all cls rep s = concat (map (\<lambda>c. if in_cclass cls c then rep else [c]) s)"

definition digit_class :: cclass where
  "digit_class = Ranges [(0x30, 0x39)]"

definition non_digit_class :: cclass where
  "non_digit_class = NotRanges [(0x30, 0x39)]"

definition char_class :: "char \<Rightarrow> cclass" where
  "char_class ch = Ranges [(of_char ch, of_char ch)]"

subsection \<open>Arrays\<close>

text \<open>
  \<^verbatim>\<open>xs.slice(start)\<close> and \<^verbatim>\<open>xs.slice(start, end)\<close>: a negative index counts from the end,
  and both are clamped to the array.
\<close>

definition rel_index :: "int \<Rightarrow> nat \<Rightarrow> nat" where
  "rel_index i n = (if i < 0 then nat (max (int n + i) 0) else min (nat i) n)"

definition slice_from :: "int \<Rightarrow> 'a list \<Rightarrow> 'a list" where
  "slice_from start xs = drop (rel_index start (length xs)) xs"

definition slice :: "int \<Rightarrow> int \<Rightarrow> 'a list \<Rightarrow> 'a list" where
  "slice start end xs =
     (let k = rel_index start (length xs); e = rel_index end (length xs)
      in take (e - k) (drop k xs))"

text \<open>
  \<^verbatim>\<open>xs.slice(start, end)\<close> where \<^verbatim>\<open>end\<close> may be \<^verbatim>\<open>undefined\<close>: the slice then runs to the end of
  the array. \<^verbatim>\<open>n > m\<close> where \<^verbatim>\<open>m\<close> may be \<^verbatim>\<open>undefined\<close>: \<^verbatim>\<open>undefined\<close> converts to \<^verbatim>\<open>NaN\<close>, and
  every comparison with \<^verbatim>\<open>NaN\<close> is false.
\<close>

definition slice_upto :: "int \<Rightarrow> nat option \<Rightarrow> 'a list \<Rightarrow> 'a list" where
  "slice_upto start end xs =
     (case end of None \<Rightarrow> slice_from start xs | Some e \<Rightarrow> slice start (int e) xs)"

definition greater_than :: "nat \<Rightarrow> nat option \<Rightarrow> bool" where
  "greater_than n m = (case m of None \<Rightarrow> False | Some k \<Rightarrow> n > k)"

section \<open>Execution console (Dashboard)\<close>

subsection \<open>The visible log\<close>

text \<open>
  A reading of the wall clock: \<^verbatim>\<open>Date.now()\<close> and the locale time string of the same
  instant. Every call of \<open>addLog\<close> takes one reading.
\<close>

record clock =
  now :: nat
  localeTime :: jsstring

record logEntry =
  id' :: nat
  timestamp :: jsstring
  message :: jsstring
  type' :: jsstring

text \<open>
  \<^verbatim>\<open>addLog(message, type = 'info')\<close> of \<^verbatim>\<open>Dashboard.jsx\<close>:
  \<^verbatim>\<open>setLogs(prev => [...prev.slice(-50), { id: Date.now(), timestamp, message, type }])\<close>.
  The type is optional; a missing one takes the default.
\<close>

definition mkEntry :: "clock \<Rightarrow> jsstring \<Rightarrow> jsstring option \<Rightarrow> logEntry" where
  "mkEntry c msg ty =
     \<lparr>id' = now c, timestamp = localeTime c, message = msg,
      type' = (case ty of None \<Rightarrow> js ''info'' | Some t \<Rightarrow> t)\<rparr>"

definition addLog :: "clock \<Rightarrow> jsstring \<Rightarrow> jsstring option \<Rightarrow> logEntry list \<Rightarrow> logEntry list" where
  "addLog c msg ty prev = slice_from (- 50) prev @ [mkEntry c msg ty]"

text \<open>
  The later revision of the console (\<^verbatim>\<open>src/unnamed/part_001\<close>) drops stack-trace and
  address noise before the same update.
\<close>

definition addLog_v2 :: "clock \<Rightarrow> jsstring \<Rightarrow> jsstring option \<Rightarrow> logEntry list \<Rightarrow> logEntry list" where
  "addLog_v2 c msg ty prev =
     (if str_includes msg (js ''<unknown>'') \<or> str_includes msg (js ''0x'')
         \<or> str_includes msg (js ''Stacktrace'')
      then prev
      else slice_from (- 50) prev @ [mkEntry c msg ty])"

text \<open>A sequence of log events, each with the clock reading of its arrival.\<close>

type_synonym logEvent = "clock \<times> jsstring \<times> jsstring option"

definition addLogs :: "logEvent list \<Rightarrow> logEntry list \<Rightarrow> logEntry list" where
  "addLogs evs l = fold (\<lambda>(c, msg, ty). addLog c msg ty) evs l"

definition addLogs_v2 :: "logEvent list \<Rightarrow> logEntry list \<Rightarrow> logEntry list" where
  "addLogs_v2 evs l = fold (\<lambda>(c, msg, ty). addLog_v2 c msg ty) evs l"

text \<open>The \<open>n\<close> sequential log events \<open>line 0\<close>, ..., \<open>line (n - 1)\<close>, arriving at times \<open>0\<close>, ..., \<open>n - 1\<close>.\<close>

definition logEvent_no :: "nat \<Rightarrow> logEvent" where
  "logEvent_no i = (\<lparr>now = i, localeTime = js ''00:00:00''\<rparr>, js ''line '' @ show_nat i, None)"

definition entry_no :: "nat \<Rightarrow> logEntry" where
  "entry_no i = mkEntry \<lparr>now = i, localeTime = js ''00:00:00''\<rparr> (js ''line '' @ show_nat i) None"

definition entryOf :: "logEvent \<Rightarrow> logEntry" where
  "entryOf ev = (case ev of (c, msg, ty) \<Rightarrow> mkEntry c msg ty)"

text \<open>The noise test of \<open>addLog_v2\<close>, named.\<close>

definition noisy :: "jsstring \<Rightarrow> bool" where
  "noisy msg = (str_includes msg (js ''<unknown>'') \<or> str_includes msg (js ''0x'')
                \<or> str_includes msg (js ''Stacktrace''))"

subsection \<open>Console state and telemetry events\<close>

text \<open>
  The counters \<^verbatim>\<open>{ total, sent, failed, progress }\<close>. The console only stores and shows them.
\<close>

record stats =
  stats_total :: int
  sent :: int
  failed :: int
  progress :: int

record voter =
  NAME :: jsstring
  MOBILE :: jsstring

text \<open>
  The state of the \<^verbatim>\<open>Dashboard\<close> component. The QR fields exist in the later revision
  only; the handlers of \<^verbatim>\<open>Dashboard.jsx\<close> never touch them. The voter list, the
  message template and the extraction flag carry the suffix \<open>_d\<close>, because the campaign
  wizard below has state of the same names.
\<close>

record dashboard =
  connected :: bool
  campaignId :: "jsstring option"
  isRunning :: bool
  logs :: "logEntry list"
  stats :: stats
  extractedVoters_d :: "voter list"
  messageTemplate_d :: jsstring
  isExtracting_d :: bool
  backendStatus :: jsstring
  qrCodeUrl :: "jsstring option"
  showQrModal :: bool

text \<open>
  A telemetry message after \<^verbatim>\<open>JSON.parse\<close>, by its \<^verbatim>\<open>type\<close> field: \<^verbatim>\<open>log\<close> (message, optional
  \<^verbatim>\<open>log_type\<close>, optional embedded \<^verbatim>\<open>stats\<close>), \<^verbatim>\<open>stats\<close>, \<^verbatim>\<open>complete\<close>, \<^verbatim>\<open>error\<close> (message),
  \<^verbatim>\<open>qr_waiting\<close>, \<^verbatim>\<open>qr_ready\<close>, \<^verbatim>\<open>whatsapp_ready\<close>, or any other type.
\<close>

datatype event =
    EvLog jsstring "jsstring option" "stats option"
  | EvStats stats
  | EvComplete
  | EvError jsstring
  | EvQrWaiting
  | EvQrReady
  | EvWhatsappReady
  | EvOther jsstring

text \<open>\<^verbatim>\<open>ws.onopen\<close>, \<^verbatim>\<open>ws.onmessage\<close> and \<^verbatim>\<open>ws.onclose\<close> of \<^verbatim>\<open>connectWebSocket\<close> in \<^verbatim>\<open>Dashboard.jsx\<close>.\<close>

definition onopen :: "clock \<Rightarrow> dashboard \<Rightarrow> dashboard" where
  "onopen c d =
     d\<lparr>connected := True,
       logs := addLog c (js ''WebSocket connected - receiving live updates'')
                 (Some (js ''success'')) (logs d)\<rparr>"

fun onmessage :: "clock \<Rightarrow> event \<Rightarrow> dashboard \<Rightarrow> dashboard" where
  "onmessage c (EvLog msg log_type st) d =
     (let d1 = d\<lparr>logs := addLog c msg log_type (logs d)\<rparr>
      in case st of None \<Rightarrow> d1 | Some x \<Rightarrow> d1\<lparr>stats := x\<rparr>)"
| "onmessage c (EvStats x) d = d\<lparr>stats := x\<rparr>"
| "onmessage c EvComplete d =
     d\<lparr>isRunning := False,
       logs := addLog c (js ''Campaign completed!'') (Some (js ''success'')) (logs d)\<rparr>"
| "onmessage c (EvError msg) d = d\<lparr>logs := addLog c msg (Some (js ''error'')) (logs d)\<rparr>"
| "onmessage c EvQrWaiting d =
     d\<lparr>logs := addLog c ([0x26A0, 0xFE0F] @ js '' Check browser - Scan WhatsApp QR code'')
                 (Some (js ''warning'')) (logs d)\<rparr>"
| "onmessage c EvWhatsappReady d =
     d\<lparr>logs := addLog c ([0x2705] @ js '' WhatsApp connected!'')
                 (Some (js ''success'')) (logs d)\<rparr>"
| "onmessage c EvQrReady d = d"
| "onmessage c (EvOther ty) d = d"

definition onclose :: "clock \<Rightarrow> dashboard \<Rightarrow> dashboard" where
  "onclose c d =
     d\<lparr>connected := False,
       logs := addLog c (js ''WebSocket disconnected'') (Some (js ''warning'')) (logs d)\<rparr>"

text \<open>
  \<^verbatim>\<open>ws.onmessage\<close> of the later revision (\<^verbatim>\<open>src/unnamed/part_001\<close>): the filtered log, and
  the QR branches. \<open>apiBase\<close> is \<^verbatim>\<open>API_BASE\<close>, read from the build environment. The
  non-ASCII literals are the code units that stand in that file.
\<close>

fun onmessage_v2 :: "jsstring \<Rightarrow> clock \<Rightarrow> event \<Rightarrow> dashboard \<Rightarrow> dashboard" where
  "onmessage_v2 apiBase c (EvLog msg log_type st) d =
     (let d1 = d\<lparr>logs := addLog_v2 c msg log_type (logs d)\<rparr>
      in case st of None \<Rightarrow> d1 | Some x \<Rightarrow> d1\<lparr>stats := x\<rparr>)"
| "onmessage_v2 apiBase c (EvStats x) d = d\<lparr>stats := x\<rparr>"
| "onmessage_v2 apiBase c EvComplete d =
     d\<lparr>isRunning := False,
       logs := addLog_v2 c (js ''Campaign completed!'') (Some (js ''success'')) (logs d)\<rparr>"
| "onmessage_v2 apiBase c (EvError msg) d =
     d\<lparr>logs := addLog_v2 c msg (Some (js ''error'')) (logs d)\<rparr>"
| "onmessage_v2 apiBase c EvQrWaiting d =
     d\<lparr>logs := addLog_v2 c
                 ([0x201A, 0x00F6, 0x2020, 0x00D4, 0x220F, 0x00E8]
                  @ js '' Waiting for WhatsApp QR scan...'')
                 (Some (js ''warning'')) (logs d)\<rparr>"
| "onmessage_v2 apiBase c EvQrReady d =
     d\<lparr>qrCodeUrl := Some (apiBase @ js ''/api/whatsapp/qr?t='' @ show_nat (now c)),
       showQrModal := True,
       logs := addLog_v2 c
                 ([0xF8FF, 0x00FC, 0x00EC, 0x00B1] @ js '' QR Code ready - Scan with WhatsApp!'')
                 (Some (js ''info'')) (logs d)\<rparr>"
| "onmessage_v2 apiBase c EvWhatsappReady d =
     d\<lparr>showQrModal := False,
       qrCodeUrl := None,
       logs := addLog_v2 c ([0x201A, 0x00FA, 0x00D6] @ js '' WhatsApp connected!'')
                 (Some (js ''success'')) (logs d)\<rparr>"
| "onmessage_v2 apiBase c (EvOther ty) d = d"

text \<open>
  The socket hands its messages to \<open>onmessage\<close> one at a time, in the order received;
  each message arrives with the clock reading of its handling.
\<close>

definition deliver :: "(clock \<times> event) list \<Rightarrow> dashboard \<Rightarrow> dashboard" where
  "deliver evs d = fold (\<lambda>(c, e). onmessage c e) evs d"

definition deliver_v2 :: "jsstring \<Rightarrow> (clock \<times> event) list \<Rightarrow> dashboard \<Rightarrow> dashboard" where
  "deliver_v2 apiBase evs d = fold (\<lambda>(c, e). onmessage_v2 apiBase c e) evs d"

text \<open>
  A sequence of messages handled at a sequence of clock readings: the \<open>k\<close>-th message
  is handled at the \<open>k\<close>-th reading, whatever the message is. Delivering the same messages
  in another order permutes the messages, not the readings.
\<close>

definition deliverAt :: "clock list \<Rightarrow> event list \<Rightarrow> dashboard \<Rightarrow> dashboard" where
  "deliverAt clocks evs d = deliver (zip clocks evs) d"

text \<open>
  What one message contributes: the counters it carries, standalone or embedded in a
  log message, and the line it appends to the log of \<^verbatim>\<open>Dashboard.jsx\<close>.
\<close>

fun statsOf :: "event \<Rightarrow> stats option" where
  "statsOf (EvLog msg log_type st) = st"
| "statsOf (EvStats x) = Some x"
| "statsOf e = None"

fun logLineOf :: "clock \<times> event \<Rightarrow> logEvent option" where
  "logLineOf (c, EvLog msg log_type st) = Some (c, msg, log_type)"
| "logLineOf (c, EvComplete) = Some (c, js ''Campaign completed!'', Some (js ''success''))"
| "logLineOf (c, EvError msg) = Some (c, msg, Some (js ''error''))"
| "logLineOf (c, EvQrWaiting) =
     Some (c, [0x26A0, 0xFE0F] @ js '' Check browser - Scan WhatsApp QR code'', Some (js ''warning''))"
| "logLineOf (c, EvWhatsappReady) =
     Some (c, [0x2705] @ js '' WhatsApp connected!'', Some (js ''success''))"
| "logLineOf (c, e) = None"

text \<open>The state of a freshly mounted console.\<close>

definition initialDashboard :: dashboard where
  "initialDashboard =
     \<lparr>connected = False, campaignId = None, isRunning = False, logs = [],
      stats = \<lparr>stats_total = 0, sent = 0, failed = 0, progress = 0\<rparr>,
      extractedVoters_d = [], messageTemplate_d = [], isExtracting_d = False,
      backendStatus = js ''checking'', qrCodeUrl = None, showQrModal = False\<rparr>"

subsection \<open>Files, requests and replies\<close>

text \<open>
  An uploaded \<^verbatim>\<open>File\<close>: its \<^verbatim>\<open>name\<close>, its \<^verbatim>\<open>size\<close> in bytes and the text that
  \<^verbatim>\<open>file.text()\<close> resolves to.
\<close>

record jsfile =
  file_name :: jsstring
  file_size :: nat
  file_text :: jsstring

text \<open>
  An awaited \<^verbatim>\<open>fetch\<close> followed by \<^verbatim>\<open>res.json()\<close> either throws (the \<^verbatim>\<open>catch\<close> block runs,
  with the message of the exception) or yields the parsed reply.
\<close>

datatype 'a response = Threw jsstring | Replied 'a

text \<open>
  The reply of \<^verbatim>\<open>/api/extract-pdf\<close>: \<^verbatim>\<open>{success: true, data: {voters, total_count, with_mobile, log}}\<close>
  or \<^verbatim>\<open>{success: false, detail}\<close>; of \<^verbatim>\<open>/api/upload-excel\<close>: \<^verbatim>\<open>{success: true, voters}\<close> or a
  failure; of \<^verbatim>\<open>/api/campaign/start\<close>: \<^verbatim>\<open>{success: true, campaign_id}\<close> or a failure; of
  \<^verbatim>\<open>/api/verify-payment\<close>: \<^verbatim>\<open>{verified, message}\<close>.
\<close>

record extractData =
  ex_voters :: "voter list"
  total_count :: nat
  with_mobile :: nat
  ex_log :: "jsstring list"

datatype extractReply = ExtractSuccess extractData | ExtractFailure "jsstring option"

datatype excelReply = ExcelSuccess "voter list" | ExcelFailure "jsstring option"

datatype startReply = StartSuccess jsstring | StartFailure "jsstring option"

datatype verifyReply = VerifyReply bool "jsstring option"

text \<open>
  The requests the client issues. \<open>VerifyPayment payment_id plan_id amount\<close>, where the
  amount is the result of \<^verbatim>\<open>parseInt\<close> (\<open>None\<close> for \<^verbatim>\<open>NaN\<close>);
  \<open>CampaignStart voters_data message_template plan_id max_messages payment_id\<close>. A field
  of the body whose value is \<^verbatim>\<open>undefined\<close> is \<open>None\<close>.
\<close>

datatype request =
    ExtractPdf jsfile
  | UploadExcel jsfile
  | VerifyPayment jsstring "jsstring option" "int option"
  | CampaignStart "voter list" jsstring "jsstring option" "nat option" "jsstring option"

subsection \<open>Uploads in the console\<close>

text \<open>\<^verbatim>\<open>data.data.log.forEach(l => addLog(l, 'info'))\<close>; \<open>clk i\<close> is the clock reading
  of the \<open>i\<close>-th call of \<open>addLog\<close> in the running handler.\<close>

fun addLogEach :: "(nat \<Rightarrow> clock) \<Rightarrow> nat \<Rightarrow> jsstring list \<Rightarrow> logEntry list \<Rightarrow> logEntry list" where
  "addLogEach clk i [] l = l"
| "addLogEach clk i (m # ms) l = addLogEach clk (Suc i) ms (addLog (clk i) m (Some (js ''info'')) l)"

definition extractedMessage :: "extractData \<Rightarrow> jsstring" where
  "extractedMessage data =
     [0x2705] @ js '' Extracted '' @ show_nat (total_count data) @ js '' voters (''
     @ show_nat (with_mobile data) @ js '' with mobile)''"

text \<open>
  \<^verbatim>\<open>handleFileUpload\<close> of \<^verbatim>\<open>Dashboard.jsx\<close> (the AI extraction of a scanned PDF). The
  result is the new state and the requests sent.
\<close>

definition Dashboard_handleFileUpload ::
  "(nat \<Rightarrow> clock) \<Rightarrow> jsfile option \<Rightarrow> extractReply response \<Rightarrow> dashboard
   \<Rightarrow> dashboard \<times> request list" where
  "Dashboard_handleFileUpload clk fileOpt resp d =
     (case fileOpt of
        None \<Rightarrow> (d, [])
      | Some file \<Rightarrow>
          if \<not> str_endsWith (file_name file) (js ''.pdf'')
          then (d\<lparr>logs := addLog (clk 0) (js ''Please upload a PDF file'')
                              (Some (js ''error'')) (logs d)\<rparr>, [])
          else
            let d1 = d\<lparr>isExtracting_d := True,
                        logs := addLog (clk 0)
                                  ([0xD83D, 0xDCC2] @ js '' Uploading '' @ file_name file @ js ''...'')
                                  (Some (js ''info'')) (logs d)\<rparr>
            in (case resp of
                  Replied (ExtractSuccess data) \<Rightarrow>
                    (d1\<lparr>extractedVoters_d := ex_voters data,
                        logs := addLogEach clk 2 (ex_log data)
                                  (addLog (clk 1) (extractedMessage data)
                                     (Some (js ''success'')) (logs d1)),
                        isExtracting_d := False\<rparr>,
                     [ExtractPdf file])
                | Replied (ExtractFailure detail) \<Rightarrow>
                    (d1\<lparr>logs := addLog (clk 1)
                                  ([0x274C] @ js '' Extraction failed: '' @ show_opt detail)
                                  (Some (js ''error'')) (logs d1),
                        isExtracting_d := False\<rparr>,
                     [ExtractPdf file])
                | Threw emsg \<Rightarrow>
                    (d1\<lparr>logs := addLog (clk 1) ([0x274C] @ js '' Upload error: '' @ emsg)
                                  (Some (js ''error'')) (logs d1),
                        isExtracting_d := False\<rparr>,
                     [ExtractPdf file])))"

text \<open>
  The CSV branch of \<^verbatim>\<open>handleQuickUpload\<close>, statement by statement. \<open>csv_lines\<close> is
  \<^verbatim>\<open>text.split('\n').filter(line => line.trim())\<close>; \<open>scanParts\<close> is the inner \<^verbatim>\<open>for\<close> loop
  over \<^verbatim>\<open>parts[1]\<close>, \<^verbatim>\<open>parts[2]\<close>, ... with its \<^verbatim>\<open>break\<close>; \<open>parseLine\<close> is the body of the
  \<^verbatim>\<open>forEach\<close> callback for an index other than 0; \<open>forEachLine\<close> is the \<^verbatim>\<open>forEach\<close> with its
  index, pushing onto \<^verbatim>\<open>voters\<close>.
\<close>

definition csv_lines :: "jsstring \<Rightarrow> jsstring list" where
  "csv_lines text = filter (\<lambda>line. str_trim line \<noteq> []) (str_split 0x0A text)"

definition mobilePattern :: regex where
  "mobilePattern = \<lparr>from_start = True, ritems = [Rep (Ranges [(0x36, 0x39)]) 1 1], to_end = False\<rparr>"

function scanParts :: "jsstring \<Rightarrow> jsstring list \<Rightarrow> nat \<Rightarrow> voter list" where
  "scanParts name parts i =
     (if i < length parts
      then (let phone = replace_all non_digit_class [] (parts ! i)
            in if length phone = 10 \<and> regex_test mobilePattern phone
               then [\<lparr>NAME = name, MOBILE = phone\<rparr>]
               else scanParts name parts (i + 1))
      else [])"
  by pat_completeness auto
termination
  by (relation "measure (\<lambda>(name, parts, i). length parts - i)") auto

declare scanParts.simps [simp del]

definition parseLine :: "jsstring \<Rightarrow> voter list" where
  "parseLine line =
     (let parts = map (\<lambda>p. replace_all (Ranges [(0x22, 0x22)]) [] (str_trim p)) (str_split 0x2C line)
      in if length parts \<ge> 2 then scanParts (parts ! 0) parts 1 else [])"

fun forEachLine :: "jsstring list \<Rightarrow> nat \<Rightarrow> voter list \<Rightarrow> voter list" where
  "forEachLine [] index voters = voters"
| "forEachLine (line # rest) index voters =
     (if index = 0 then forEachLine rest (Suc index) voters
      else forEachLine rest (Suc index) (voters @ parseLine line))"

definition parseCSV :: "jsstring \<Rightarrow> voter list" where
  "parseCSV text = forEachLine (csv_lines text) 0 []"

text \<open>
  \<^verbatim>\<open>handleQuickUpload\<close> of \<^verbatim>\<open>Dashboard.jsx\<close>; the later revision has the same statements
  over its filtered log. Only the reply of the endpoint that the file kind selects is
  consulted.
\<close>

definition handleQuickUpload ::
  "(nat \<Rightarrow> clock) \<Rightarrow> jsfile option \<Rightarrow> extractReply response \<Rightarrow> excelReply response \<Rightarrow> dashboard
   \<Rightarrow> dashboard \<times> request list" where
  "handleQuickUpload clk fileOpt pdfResp excelResp d =
     (case fileOpt of
        None \<Rightarrow> (d, [])
      | Some file \<Rightarrow>
          let fileName = toLowerCase (file_name file) in
          if \<not> str_endsWith fileName (js ''.xlsx'') \<and> \<not> str_endsWith fileName (js ''.xls'')
             \<and> \<not> str_endsWith fileName (js ''.csv'') \<and> \<not> str_endsWith fileName (js ''.pdf'')
          then (d\<lparr>logs := addLog (clk 0)
                              (js ''Please upload a PDF, Excel (.xlsx, .xls) or CSV file'')
                              (Some (js ''error'')) (logs d)\<rparr>, [])
          else
            let d1 = d\<lparr>logs := addLog (clk 0)
                                  ([0xD83D, 0xDCCA] @ js '' Loading '' @ file_name file @ js ''...'')
                                  (Some (js ''info'')) (logs d)\<rparr>
            in if str_endsWith fileName (js ''.pdf'') then
                 (case pdfResp of
                    Replied (ExtractSuccess data) \<Rightarrow>
                      (d1\<lparr>extractedVoters_d := ex_voters data,
                          logs := addLogEach clk 2 (ex_log data)
                                    (addLog (clk 1) (extractedMessage data)
                                       (Some (js ''success'')) (logs d1))\<rparr>,
                       [ExtractPdf file])
                  | Replied (ExtractFailure detail) \<Rightarrow>
                      (d1\<lparr>logs := addLog (clk 1)
                                    ([0x274C] @ js '' PDF extraction failed: '' @ show_opt detail)
                                    (Some (js ''error'')) (logs d1)\<rparr>,
                       [ExtractPdf file])
                  | Threw emsg \<Rightarrow>
                      (d1\<lparr>logs := addLog (clk 1) ([0x274C] @ js '' File error: '' @ emsg)
                                    (Some (js ''error'')) (logs d1)\<rparr>,
                       [ExtractPdf file]))
               else if str_endsWith fileName (js ''.csv'') then
                 (let voters = parseCSV (file_text file)
                  in if length voters > 0
                     then (d1\<lparr>extractedVoters_d := voters,
                               logs := addLog (clk 1)
                                         ([0x2705] @ js '' Loaded '' @ show_nat (length voters)
                                          @ js '' voters with phone numbers from CSV'')
                                         (Some (js ''success'')) (logs d1)\<rparr>, [])
                     else (d1\<lparr>logs := addLog (clk 1)
                                         ([0x274C] @ js '' No valid phone numbers found in CSV. Expected columns: NAME, PHONE'')
                                         (Some (js ''error'')) (logs d1)\<rparr>, []))
               else
                 (case excelResp of
                    Replied (ExcelSuccess vs) \<Rightarrow>
                      (d1\<lparr>extractedVoters_d := vs,
                          logs := addLog (clk 1)
                                    ([0x2705] @ js '' Loaded '' @ show_nat (length vs)
                                     @ js '' voters from Excel'')
                                    (Some (js ''success'')) (logs d1)\<rparr>,
                       [UploadExcel file])
                  | Replied (ExcelFailure detail) \<Rightarrow>
                      (d1\<lparr>logs := addLog (clk 1)
                                    ([0x274C] @ js '' Excel parsing failed: '' @ show_opt detail)
                                    (Some (js ''error'')) (logs d1)\<rparr>,
                       [UploadExcel file])
                  | Threw emsg \<Rightarrow>
                      (d1\<lparr>logs := addLog (clk 1) ([0x274C] @ js '' File error: '' @ emsg)
                                    (Some (js ''error'')) (logs d1)\<rparr>,
                       [UploadExcel file])))"

subsection \<open>The delimited-text policy in the specification's words\<close>

text \<open>
  The specification's reading of one line: the line is split on commas; field 0 is the
  name; the remaining fields are scanned from the left for the first token that
  normalizes to exactly 10 digits beginning with 6 to 9, which becomes the mobile
  number; a line with no such token contributes nothing. A field is cleaned as the code
  cleans it (trimmed, double quotes removed), and normalizing keeps the digits.
\<close>

definition digitsOf :: "jsstring \<Rightarrow> jsstring" where
  "digitsOf field = filter (\<lambda>c. 0x30 \<le> c \<and> c \<le> 0x39) field"

definition isMobile :: "jsstring \<Rightarrow> bool" where
  "isMobile t = (length t = 10 \<and> (case t of [] \<Rightarrow> False | c # cs \<Rightarrow> 0x36 \<le> c \<and> c \<le> 0x39))"

definition cleanField :: "jsstring \<Rightarrow> jsstring" where
  "cleanField p = filter (\<lambda>c. c \<noteq> 0x22) (str_trim p)"

definition contact_of_line :: "jsstring \<Rightarrow> voter list" where
  "contact_of_line line =
     (case map cleanField (str_split 0x2C line) of
        [] \<Rightarrow> []
      | name # rest \<Rightarrow>
          (case find (\<lambda>f. isMobile (digitsOf f)) rest of
             None \<Rightarrow> []
           | Some f \<Rightarrow> [\<lparr>NAME = name, MOBILE = digitsOf f\<rparr>]))"

text \<open>
  The claim as stated: of the lines of the text, the first yields nothing and every
  other line yields its contact.
\<close>

definition claimed_contacts :: "jsstring \<Rightarrow> voter list" where
  "claimed_contacts text = concat (map contact_of_line (drop 1 (str_split 0x0A text)))"

section \<open>Campaign wizard (PaymentModal)\<close>

subsection \<open>Plans and stored records\<close>

text \<open>
  A plan object as the wizard receives it. The plans of \<^verbatim>\<open>PLANS\<close> and \<^verbatim>\<open>getDevPlan\<close> carry
  \<^verbatim>\<open>id\<close>, \<^verbatim>\<open>campaigns\<close> and \<^verbatim>\<open>maxMessages\<close>; the plan objects that \<^verbatim>\<open>App.jsx\<close> and the pricing cards
  hand over as the \<^verbatim>\<open>plan\<close> property carry a name, a price and a period, and none of these
  three. A field that an object does not have reads as \<^verbatim>\<open>undefined\<close>, here \<open>None\<close>. The
  fields \<^verbatim>\<open>id\<close> and \<^verbatim>\<open>name\<close> carry the prefix \<open>plan_\<close>; \<^verbatim>\<open>popular\<close> and \<^verbatim>\<open>isDev\<close> are false and
  \<^verbatim>\<open>features\<close> is empty where the object has no such field. The fields \<^verbatim>\<open>highlighted\<close> and
  \<^verbatim>\<open>cta\<close> of the pricing cards, which nothing in the wizard reads, are left out.
\<close>

record plan =
  plan_id :: "jsstring option"
  plan_name :: jsstring
  price :: jsstring
  campaigns :: "int option"
  maxMessages :: "nat option"
  description :: "jsstring option"
  popular :: bool
  isDev :: bool
  features :: "jsstring list"
  period :: "jsstring option"

definition wardPlan :: plan where
  "wardPlan =
     \<lparr>plan_id = Some (js ''ward''), plan_name = js ''Ward'', price = js ''999'',
      campaigns = Some 1, maxMessages = Some 500,
      description = Some (js ''For local panchayat & ward elections''),
      popular = False, isDev = False,
      features = [js ''Up to 500 messages'', js ''1 voter list extraction'', js ''Basic support''],
      period = None\<rparr>"

definition municipalPlan :: plan where
  "municipalPlan =
     \<lparr>plan_id = Some (js ''municipal''), plan_name = js ''Municipal'', price = js ''2,499'',
      campaigns = Some 3, maxMessages = Some 2000,
      description = Some (js ''For municipal & council elections''),
      popular = True, isDev = False,
      features = [js ''Up to 2,000 messages'', js ''5 extractions'', js ''AI personalization'',
                  js ''Priority support''],
      period = None\<rparr>"

definition assemblyPlan :: plan where
  "assemblyPlan =
     \<lparr>plan_id = Some (js ''assembly''), plan_name = js ''Assembly'', price = js ''4,999'',
      campaigns = Some 5, maxMessages = Some 10000,
      description = Some (js ''For MLA & large-scale campaigns''),
      popular = False, isDev = False,
      features = [js ''Up to 10,000 messages'', js ''Unlimited extractions'', js ''Custom AI'',
                  js ''24/7 support''],
      period = None\<rparr>"

definition PLANS :: "plan list" where
  "PLANS = [wardPlan, municipalPlan, assemblyPlan]"

definition getDevPlan :: plan where
  "getDevPlan =
     \<lparr>plan_id = Some (js ''dev''), plan_name = js ''Developer'', price = js ''0'',
      campaigns = Some 999, maxMessages = Some 999999,
      description = Some (js ''Developer testing account''),
      popular = False, isDev = True,
      features = [js ''Unlimited campaigns'', js ''Unlimited messages'', js ''All features enabled'',
                  js ''No payment required''],
      period = None\<rparr>"

text \<open>\<^verbatim>\<open>defaultPlan\<close> of \<^verbatim>\<open>App.jsx\<close>, the plan with which the application mounts the wizard.\<close>

definition defaultPlan :: plan where
  "defaultPlan =
     \<lparr>plan_id = None, plan_name = js ''Municipal'', price = js ''2,499'',
      campaigns = None, maxMessages = None, description = None,
      popular = False, isDev = False, features = [],
      period = Some (js ''/campaign'')\<rparr>"

text \<open>
  The quota record kept under \<^verbatim>\<open>voteflow_user_campaigns\<close>, as \<^verbatim>\<open>JSON.parse\<close> reads it back.
  \<^verbatim>\<open>JSON.stringify\<close> drops a field whose value is \<^verbatim>\<open>undefined\<close> and writes \<^verbatim>\<open>null\<close> for \<^verbatim>\<open>NaN\<close>. So
  \<^verbatim>\<open>planId\<close> and \<^verbatim>\<open>total\<close> are absent (\<open>None\<close>) where the plan had no \<^verbatim>\<open>id\<close> or no \<^verbatim>\<open>campaigns\<close>;
  \<^verbatim>\<open>remaining\<close>, which every record written by the code has, is a number or \<^verbatim>\<open>null\<close> (\<open>None\<close>).
  The record the code starts from when nothing is stored, \<^verbatim>\<open>{ total: 0, remaining: 0 }\<close>, has
  no plan, date or payment fields. The payment field carries a prime, because the wizard
  has a state of the same name.
\<close>

record userData =
  planId :: "jsstring option"
  planName :: "jsstring option"
  total :: "int option"
  remaining :: "int option"
  purchaseDate :: "nat option"
  paymentId' :: "jsstring option"

text \<open>\<^verbatim>\<open>x - 1\<close> for a stored number or \<^verbatim>\<open>null\<close>: \<^verbatim>\<open>null\<close> converts to 0.\<close>

definition numberOf :: "int option \<Rightarrow> int" where
  "numberOf x = (case x of None \<Rightarrow> 0 | Some n \<Rightarrow> n)"

text \<open>
  \<open>PendingCampaign voters message plan timestamp\<close> is the value under
  \<^verbatim>\<open>voteflow_pending_campaign\<close>; \<open>PaidCampaign campaignId paymentId timestamp isDev\<close> the value
  under \<^verbatim>\<open>voteflow_paid_campaign\<close>. Values are kept as the objects that \<^verbatim>\<open>JSON.stringify\<close>
  writes and \<^verbatim>\<open>JSON.parse\<close> reads back.
\<close>

datatype pendingCampaign = PendingCampaign "voter list" jsstring plan nat

datatype paidCampaign = PaidCampaign jsstring "jsstring option" nat bool

record storage =
  voteflow_user_campaigns :: "userData option"
  voteflow_pending_campaign :: "pendingCampaign option"
  voteflow_paid_campaign :: "paidCampaign option"

text \<open>\<open>Navigation campaignId autoStart voters message\<close>: the state handed to \<^verbatim>\<open>/dashboard\<close>.\<close>

datatype navigation = Navigation jsstring bool "voter list" jsstring

subsection \<open>Wizard state\<close>

text \<open>
  The React state of the modal, the browser storage it writes, whether \<^verbatim>\<open>onClose\<close> has been
  called, and the navigation to the console once a campaign is launched. \<open>step\<close> is
  0: plan selection, 1: ingestion, 2: composition, 3: payment pending,
  4: payment verification.
\<close>

record wizard =
  step :: nat
  selectedPlan :: plan
  votersFile :: "jsfile option"
  extractedVoters :: "voter list"
  messageTemplate :: jsstring
  isExtracting :: bool
  isProcessing :: bool
  error :: jsstring
  remainingCampaigns :: "int option"
  paymentId :: jsstring
  localStorage :: storage
  closed :: bool
  navigated :: "navigation option"

text \<open>
  What a handler does besides changing the state, in order: every call of \<^verbatim>\<open>setError\<close>,
  every request sent, every page opened.
\<close>

datatype effect = SetError jsstring | Fetch request | WindowOpen jsstring

text \<open>The error notices of a trace: the non-empty messages given to \<^verbatim>\<open>setError\<close>.\<close>

fun notices :: "effect list \<Rightarrow> jsstring list" where
  "notices [] = []"
| "notices (SetError m # fx) = (if m = [] then notices fx else m # notices fx)"
| "notices (Fetch r # fx) = notices fx"
| "notices (WindowOpen u # fx) = notices fx"

text \<open>The requests of a trace.\<close>

fun requests :: "effect list \<Rightarrow> request list" where
  "requests [] = []"
| "requests (Fetch r # fx) = r # requests fx"
| "requests (SetError m # fx) = requests fx"
| "requests (WindowOpen u # fx) = requests fx"

text \<open>The default message template, a Telugu text, as its UTF-16 code units.\<close>

definition defaultMessage :: jsstring where
  "defaultMessage =
     [0x0C28, 0x0C2E, 0x0C38, 0x0C4D, 0x0C15, 0x0C3E, 0x0C30, 0x0C02, 0x0021, 0x000A, 0x000A,
      0x0C2E, 0x0C40, 0x0020, 0x0C13, 0x0C1F, 0x0C41, 0x0020, 0x0C2E, 0x0C3E, 0x0020,
      0x0C2C, 0x0C32, 0x0C02, 0x002E, 0x0020, 0x0C2E, 0x0C40, 0x0020,
      0x0C35, 0x0C3F, 0x0C32, 0x0C41, 0x0C35, 0x0C48, 0x0C28, 0x0020,
      0x0C13, 0x0C1F, 0x0C41, 0x0C24, 0x0C4B, 0x0020,
      0x0C2E, 0x0C2E, 0x0C4D, 0x0C2E, 0x0C32, 0x0C4D, 0x0C28, 0x0C3F, 0x0020,
      0x0C17, 0x0C46, 0x0C32, 0x0C3F, 0x0C2A, 0x0C3F, 0x0C02, 0x0C1A, 0x0C02, 0x0C21, 0x0C3F,
      0x002E, 0x000A, 0x000A,
      0x0C27, 0x0C28, 0x0C4D, 0x0C2F, 0x0C35, 0x0C3E, 0x0C26, 0x0C3E, 0x0C32, 0x0C41, 0x0020,
      0xD83D, 0xDE4F]"

text \<open>\<^verbatim>\<open>sanitizeInput\<close>: the four replacements, in the order of the source.\<close>

definition sanitizeInput :: "jsstring \<Rightarrow> jsstring" where
  "sanitizeInput input =
     replace_all (Ranges [(0x27, 0x27)]) (js ''&#x27;'')
       (replace_all (Ranges [(0x22, 0x22)]) (js ''&quot;'')
         (replace_all (Ranges [(0x3E, 0x3E)]) (js ''&gt;'')
           (replace_all (Ranges [(0x3C, 0x3C)]) (js ''&lt;'') input)))"

text \<open>
  \<^verbatim>\<open>parseInt(s)\<close> without a radix: leading white space, an optional sign, an optional
  \<^verbatim>\<open>0x\<close> prefix that selects radix 16, then the longest run of digits; \<open>None\<close> is \<^verbatim>\<open>NaN\<close>.
  The value is exact (the rounding of JavaScript numbers beyond \<open>2^53\<close> is not modelled).
\<close>

definition digitVal :: "nat \<Rightarrow> nat" where
  "digitVal c =
     (if 0x30 \<le> c \<and> c \<le> 0x39 then c - 0x30
      else if 0x61 \<le> c \<and> c \<le> 0x7A then c - 0x61 + 10
      else if 0x41 \<le> c \<and> c \<le> 0x5A then c - 0x41 + 10
      else 36)"

definition parseInt :: "jsstring \<Rightarrow> int option" where
  "parseInt s =
     (let s1 = dropWhile isWhiteSpace s;
          neg = (case s1 of [] \<Rightarrow> False | c # cs \<Rightarrow> c = 0x2D);
          s2 = (case s1 of [] \<Rightarrow> [] | c # cs \<Rightarrow> if c = 0x2D \<or> c = 0x2B then cs else s1);
          hex = (length s2 \<ge> 2 \<and> (str_startsWith s2 (js ''0x'') \<or> str_startsWith s2 (js ''0X'')));
          radix = (if hex then 16 else 10);
          s3 = (if hex then drop 2 s2 else s2);
          ds = takeWhile (\<lambda>c. digitVal c < radix) s3;
          v = foldl (\<lambda>a c. a * int radix + int (digitVal c)) 0 ds
      in if ds = [] then None else Some (if neg then - v else v))"

subsection \<open>Wizard handlers\<close>

text \<open>
  Each handler reads the state of the render it was created in (\<open>w\<close>) and returns the
  state after its updates, with the trace of its effects. The reply of each awaited
  request is an argument. \<open>dateNow k\<close> is the value of the \<open>k\<close>-th call of \<^verbatim>\<open>Date.now()\<close> in the
  handler.
\<close>

definition handlePlanSelect :: "plan \<Rightarrow> wizard \<Rightarrow> wizard" where
  "handlePlanSelect p w = w\<lparr>selectedPlan := p, step := 1\<rparr>"

definition planLimitMessage :: "nat option \<Rightarrow> jsstring" where
  "planLimitMessage maxVoters =
     js ''Plan limit: Only first ''
     @ (case maxVoters of None \<Rightarrow> js ''undefined'' | Some m \<Rightarrow> show_nat m)
     @ js '' voters loaded''"

definition handleFileUpload ::
  "jsfile option \<Rightarrow> extractReply response \<Rightarrow> wizard \<Rightarrow> wizard \<times> effect list" where
  "handleFileUpload fileOpt resp w =
     (case fileOpt of
        None \<Rightarrow> (w, [])
      | Some file \<Rightarrow>
          if \<not> str_endsWith (toLowerCase (file_name file)) (js ''.pdf'')
          then (w\<lparr>error := js ''Only PDF files are allowed''\<rparr>,
                [SetError (js ''Only PDF files are allowed'')])
          else if file_size file > 10 * 1024 * 1024
          then (w\<lparr>error := js ''File size must be less than 10MB''\<rparr>,
                [SetError (js ''File size must be less than 10MB'')])
          else
            let w1 = w\<lparr>votersFile := Some file, isExtracting := True, error := []\<rparr>;
                fx = [SetError [], Fetch (ExtractPdf file)]
            in (case resp of
                  Replied (ExtractSuccess data) \<Rightarrow>
                    (let maxVoters = maxMessages (selectedPlan w);
                         voters = slice_upto 0 maxVoters (ex_voters data)
                     in if greater_than (length (ex_voters data)) maxVoters
                        then (w1\<lparr>error := planLimitMessage maxVoters,
                                  extractedVoters := voters, step := 2, isExtracting := False\<rparr>,
                              fx @ [SetError (planLimitMessage maxVoters)])
                        else (w1\<lparr>extractedVoters := voters, step := 2, isExtracting := False\<rparr>, fx))
                | Replied (ExtractFailure detail) \<Rightarrow>
                    (w1\<lparr>error := opt_or detail (js ''Failed to extract voters''),
                        isExtracting := False\<rparr>,
                     fx @ [SetError (opt_or detail (js ''Failed to extract voters''))])
                | Threw emsg \<Rightarrow>
                    (w1\<lparr>error := js ''Server error. Make sure backend is running.'',
                        isExtracting := False\<rparr>,
                     fx @ [SetError (js ''Server error. Make sure backend is running.'')])))"

text \<open>
  \<^verbatim>\<open>handleDevStartCampaign\<close>. It is called from \<^verbatim>\<open>handleProceedToPayment\<close> in the same render,
  so it reads the voters and the template of that render (\<open>r\<close>), while its updates go on
  top of the updates already made (\<open>w\<close>).
\<close>

definition handleDevStartCampaign ::
  "(nat \<Rightarrow> nat) \<Rightarrow> startReply response \<Rightarrow> wizard \<Rightarrow> wizard \<Rightarrow> wizard \<times> effect list" where
  "handleDevStartCampaign dateNow resp r w =
     (let w1 = w\<lparr>isProcessing := True, error := []\<rparr>;
          msg = str_or (messageTemplate r) defaultMessage;
          fx = [SetError [],
                Fetch (CampaignStart (extractedVoters r) msg (Some (js ''dev'')) (Some 999999) None)]
      in case resp of
           Replied (StartSuccess campaign_id) \<Rightarrow>
             (w1\<lparr>localStorage := (localStorage w1)
                     \<lparr>voteflow_paid_campaign := Some (PaidCampaign campaign_id None (dateNow 0) True)\<rparr>,
                 closed := True,
                 navigated := Some (Navigation campaign_id True (extractedVoters r) msg),
                 isProcessing := False\<rparr>,
              fx)
         | Replied (StartFailure detail) \<Rightarrow>
             (w1\<lparr>error := opt_or detail (js ''Failed to start campaign''), isProcessing := False\<rparr>,
              fx @ [SetError (opt_or detail (js ''Failed to start campaign''))])
         | Threw emsg \<Rightarrow>
             (w1\<lparr>error := js ''Failed to start campaign. Please try again.'', isProcessing := False\<rparr>,
              fx @ [SetError (js ''Failed to start campaign. Please try again.'')]))"

text \<open>\<^verbatim>\<open>handleProceedToPayment\<close>; \<open>isDevUser\<close> is \<^verbatim>\<open>isDevAccount(userEmail)\<close>.\<close>

definition handleProceedToPayment ::
  "bool \<Rightarrow> (nat \<Rightarrow> nat) \<Rightarrow> startReply response \<Rightarrow> wizard \<Rightarrow> wizard \<times> effect list" where
  "handleProceedToPayment isDevUser dateNow resp w =
     (let w1 = (if str_trim (messageTemplate w) = [] then w\<lparr>messageTemplate := defaultMessage\<rparr> else w)
      in if isDevUser then handleDevStartCampaign dateNow resp w w1
         else (w1\<lparr>step := 3\<rparr>, []))"

text \<open>\<^verbatim>\<open>handlePayment\<close>; \<open>link\<close> is \<^verbatim>\<open>RAZORPAY_LINK\<close>, read from the build environment.\<close>

definition handlePayment :: "jsstring \<Rightarrow> (nat \<Rightarrow> nat) \<Rightarrow> wizard \<Rightarrow> wizard \<times> effect list" where
  "handlePayment link dateNow w =
     (let sanitizedMessage = sanitizeInput (str_or (messageTemplate w) defaultMessage)
      in (w\<lparr>localStorage := (localStorage w)
                \<lparr>voteflow_pending_campaign :=
                   Some (PendingCampaign (extractedVoters w) sanitizedMessage (selectedPlan w) (dateNow 0))\<rparr>,
            step := 4\<rparr>,
          [WindowOpen link]))"

text \<open>\<^verbatim>\<open>/^pay_[a-zA-Z0-9]{10,30}$/\<close>\<close>

definition paymentIdPattern :: regex where
  "paymentIdPattern =
     \<lparr>from_start = True,
      ritems = [Lit CHR ''p'', Lit CHR ''a'', Lit CHR ''y'', Lit CHR ''_'',
                Rep (Ranges [(0x61, 0x7A), (0x41, 0x5A), (0x30, 0x39)]) 10 30],
      to_end = True\<rparr>"

text \<open>
  The block \<^verbatim>\<open>// Update campaign count\<close> of \<^verbatim>\<open>handleVerifyPayment\<close>: the new value of
  \<^verbatim>\<open>voteflow_user_campaigns\<close>, from the stored one (if any), the selected plan, the payment
  id and the clock. \<open>parsedUserData\<close> is
  \<^verbatim>\<open>existingData ? JSON.parse(existingData) : { total: 0, remaining: 0 }\<close>. The test
  \<^verbatim>\<open>userData.planId !== selectedPlan.id\<close> compares two values that may each be \<^verbatim>\<open>undefined\<close>.
  In a new purchase \<^verbatim>\<open>selectedPlan.campaigns - 1\<close> is \<^verbatim>\<open>NaN\<close> for a plan without \<^verbatim>\<open>campaigns\<close>, and
  is stored as \<^verbatim>\<open>null\<close>. A new purchase reads the clock for its date, so the time stamp of
  the paid campaign written next is the second reading then, and the first one otherwise.
\<close>

definition parsedUserData :: "userData option \<Rightarrow> userData" where
  "parsedUserData existingData =
     (case existingData of
        Some u \<Rightarrow> u
      | None \<Rightarrow> \<lparr>planId = None, planName = None, total = Some 0, remaining = Some 0,
                 purchaseDate = None, paymentId' = None\<rparr>)"

definition updateCampaignCount ::
  "userData option \<Rightarrow> plan \<Rightarrow> jsstring \<Rightarrow> (nat \<Rightarrow> nat) \<Rightarrow> userData" where
  "updateCampaignCount existingData p pid dateNow =
     (let userData = parsedUserData existingData
      in if planId userData \<noteq> plan_id p
         then \<lparr>planId = plan_id p, planName = Some (plan_name p),
               total = campaigns p, remaining = map_option (\<lambda>c. c - 1) (campaigns p),
               purchaseDate = Some (dateNow 0), paymentId' = Some pid\<rparr>
         else userData\<lparr>remaining := Some (max 0 (numberOf (remaining userData) - 1))\<rparr>)"

definition invalidPaymentIdMessage :: jsstring where
  "invalidPaymentIdMessage =
     js ''Invalid Payment ID format. It should look like: pay_xxxxxxxxxxxxxxx''"

definition handleVerifyPayment ::
  "(nat \<Rightarrow> nat) \<Rightarrow> verifyReply response \<Rightarrow> startReply response \<Rightarrow> wizard
   \<Rightarrow> wizard \<times> effect list" where
  "handleVerifyPayment dateNow verifyRes startRes w =
     (let w1 = w\<lparr>isProcessing := True, error := []\<rparr> in
      if \<not> regex_test paymentIdPattern (paymentId w)
      then (w1\<lparr>error := invalidPaymentIdMessage, isProcessing := False\<rparr>,
            [SetError [], SetError invalidPaymentIdMessage])
      else
        let p = selectedPlan w;
            fx = [SetError [],
                  Fetch (VerifyPayment (paymentId w) (plan_id p)
                           (parseInt (replace_all (Ranges [(0x2C, 0x2C)]) [] (price p))))]
        in (case verifyRes of
              Threw emsg \<Rightarrow>
                (w1\<lparr>error := js ''Failed to verify payment. Please try again.'',
                    isProcessing := False\<rparr>,
                 fx @ [SetError (js ''Failed to verify payment. Please try again.'')])
            | Replied (VerifyReply verified vmessage) \<Rightarrow>
                if \<not> verified
                then (w1\<lparr>error := opt_or vmessage
                                    (js ''Payment verification failed. Please check your Payment ID.''),
                          isProcessing := False\<rparr>,
                      fx @ [SetError (opt_or vmessage
                                    (js ''Payment verification failed. Please check your Payment ID.''))])
                else
                  let msg = str_or (messageTemplate w) defaultMessage;
                      fx2 = fx @ [Fetch (CampaignStart (extractedVoters w) msg (plan_id p)
                                           (maxMessages p) (Some (paymentId w)))]
                  in (case startRes of
                        Threw emsg \<Rightarrow>
                          (w1\<lparr>error := js ''Failed to verify payment. Please try again.'',
                              isProcessing := False\<rparr>,
                           fx2 @ [SetError (js ''Failed to verify payment. Please try again.'')])
                      | Replied (StartFailure detail) \<Rightarrow>
                          (w1\<lparr>error := opt_or detail (js ''Failed to start campaign''),
                              isProcessing := False\<rparr>,
                           fx2 @ [SetError (opt_or detail (js ''Failed to start campaign''))])
                      | Replied (StartSuccess campaign_id) \<Rightarrow>
                          (let userData = updateCampaignCount
                                            (voteflow_user_campaigns (localStorage w)) p (paymentId w) dateNow;
                               newPlan = (planId (parsedUserData (voteflow_user_campaigns (localStorage w)))
                                            \<noteq> plan_id p);
                               stamp = (if newPlan then dateNow 1 else dateNow 0)
                           in (w1\<lparr>localStorage :=
                                     \<lparr>voteflow_user_campaigns = Some userData,
                                      voteflow_pending_campaign = None,
                                      voteflow_paid_campaign =
                                        Some (PaidCampaign campaign_id (Some (paymentId w)) stamp False)\<rparr>,
                                   closed := True,
                                   navigated := Some (Navigation campaign_id True (extractedVoters w) msg),
                                   isProcessing := False\<rparr>,
                               fx2)))))"

subsection \<open>The wizard as a state machine\<close>

text \<open>
  The state of a freshly mounted modal, after its mount effect has read the stored
  quota. \<open>initialPlan\<close> is the \<^verbatim>\<open>plan\<close> property.
\<close>

definition initModal :: "bool \<Rightarrow> plan option \<Rightarrow> storage \<Rightarrow> wizard" where
  "initModal isDevUser initialPlan st =
     \<lparr>step = (if initialPlan \<noteq> None then 1 else 0),
      selectedPlan = (if isDevUser then getDevPlan
                      else (case initialPlan of Some p \<Rightarrow> p | None \<Rightarrow> PLANS ! 1)),
      votersFile = None, extractedVoters = [], messageTemplate = [],
      isExtracting = False, isProcessing = False, error = [],
      remainingCampaigns =
        (if isDevUser then Some 999
         else (case voteflow_user_campaigns st of None \<Rightarrow> None | Some u \<Rightarrow> remaining u)),
      paymentId = [], localStorage = st, closed = False, navigated = None\<rparr>"

text \<open>
  What the operator can do, with the replies that the requests of the action receive.
  Each control exists only in the step that renders it: the plan cards in step 0; the
  upload button (disabled while extracting) and \<^verbatim>\<open>Change Plan\<close> in step 1; the message box
  (at most 1000 characters) and \<^verbatim>\<open>Continue to Payment\<close> in step 2; the pay button in step 3;
  the payment id box, the verify button (disabled while processing and for an id shorter
  than 10) and \<^verbatim>\<open>Go Back\<close> in step 4; the close button everywhere. A closed modal is
  unmounted and takes no action. Every handler runs to its end before the next action.
\<close>

datatype action =
    SelectPlan nat
  | Upload "jsfile option" "extractReply response"
  | ChangePlan
  | EditMessage jsstring
  | Continue "nat \<Rightarrow> nat" "startReply response"
  | Pay "nat \<Rightarrow> nat"
  | EditPaymentId jsstring
  | Verify "nat \<Rightarrow> nat" "verifyReply response" "startReply response"
  | GoBack
  | Close

fun perform :: "bool \<Rightarrow> jsstring \<Rightarrow> action \<Rightarrow> wizard \<Rightarrow> wizard" where
  "perform isDevUser link (SelectPlan i) w =
     (if \<not> closed w \<and> step w = 0 \<and> i < length PLANS then handlePlanSelect (PLANS ! i) w else w)"
| "perform isDevUser link (Upload fileOpt resp) w =
     (if \<not> closed w \<and> step w = 1 \<and> \<not> isExtracting w then fst (handleFileUpload fileOpt resp w) else w)"
| "perform isDevUser link ChangePlan w =
     (if \<not> closed w \<and> step w = 1 then w\<lparr>step := 0\<rparr> else w)"
| "perform isDevUser link (EditMessage v) w =
     (if \<not> closed w \<and> step w = 2 \<and> length v \<le> 1000 then w\<lparr>messageTemplate := v\<rparr> else w)"
| "perform isDevUser link (Continue dateNow resp) w =
     (if \<not> closed w \<and> step w = 2 then fst (handleProceedToPayment isDevUser dateNow resp w) else w)"
| "perform isDevUser link (Pay dateNow) w =
     (if \<not> closed w \<and> step w = 3 then fst (handlePayment link dateNow w) else w)"
| "perform isDevUser link (EditPaymentId v) w =
     (if \<not> closed w \<and> step w = 4 then w\<lparr>paymentId := str_trim v\<rparr> else w)"
| "perform isDevUser link (Verify dateNow verifyRes startRes) w =
     (if \<not> closed w \<and> step w = 4 \<and> \<not> isProcessing w \<and> paymentId w \<noteq> []
         \<and> \<not> length (paymentId w) < 10
      then fst (handleVerifyPayment dateNow verifyRes startRes w) else w)"
| "perform isDevUser link GoBack w =
     (if \<not> closed w \<and> step w = 4 then w\<lparr>step := 3\<rparr> else w)"
| "perform isDevUser link Close w =
     (if \<not> closed w then w\<lparr>closed := True\<rparr> else w)"

definition run :: "bool \<Rightarrow> jsstring \<Rightarrow> action list \<Rightarrow> wizard \<Rightarrow> wizard" where
  "run isDevUser link acts w = fold (perform isDevUser link) acts w"

text \<open>Launched: the wizard has handed over to the console.\<close>

definition launched :: "wizard \<Rightarrow> bool" where
  "launched w = (navigated w \<noteq> None)"

subsection \<open>Example values\<close>

definition emptyStorage :: storage where
  "emptyStorage =
     \<lparr>voteflow_user_campaigns = None, voteflow_pending_campaign = None,
      voteflow_paid_campaign = None\<rparr>"

definition asha :: voter where
  "asha = \<lparr>NAME = js ''Asha'', MOBILE = js ''9876543210''\<rparr>"

text \<open>A draft in the composition step: the municipal plan, one voter, a message.\<close>

definition draft :: wizard where
  "draft = (initModal False (Some municipalPlan) emptyStorage)
             \<lparr>step := 2, extractedVoters := [asha], messageTemplate := js ''Vote on Monday''\<rparr>"

definition zeroClock :: "nat \<Rightarrow> nat" where
  "zeroClock k = 0"

definition noon :: clock where
  "noon = \<lparr>now = 0, localeTime = js ''12:00:00''\<rparr>"

subsection \<open>The payment reference shape in the specification's words\<close>

definition isAlphanumeric :: "nat \<Rightarrow> bool" where
  "isAlphanumeric c =
     ((0x61 \<le> c \<and> c \<le> 0x7A) \<or> (0x41 \<le> c \<and> c \<le> 0x5A) \<or> (0x30 \<le> c \<and> c \<le> 0x39))"

text \<open>The fixed prefix \<^verbatim>\<open>pay_\<close> followed by 10 to 30 alphanumeric characters.\<close>

definition shape_ok :: "jsstring \<Rightarrow> bool" where
  "shape_ok s =
     (take 4 s = js ''pay_'' \<and> 10 \<le> length (drop 4 s) \<and> length (drop 4 s) \<le> 30
      \<and> list_all isAlphanumeric (drop 4 s))"

text \<open>
  The condition under which \<open>handleVerifyPayment\<close> reaches its success branch: the id
  has the right shape, the verification reply says verified, and the start reply says
  success.
\<close>

definition launchOk :: "wizard \<Rightarrow> verifyReply response \<Rightarrow> startReply response \<Rightarrow> bool" where
  "launchOk w verifyRes startRes =
     (regex_test paymentIdPattern (paymentId w)
      \<and> (case verifyRes of Replied (VerifyReply verified vmessage) \<Rightarrow> verified | Threw e \<Rightarrow> False)
      \<and> (case startRes of Replied (StartSuccess campaign_id) \<Rightarrow> True | _ \<Rightarrow> False))"

text \<open>A stored quota record of the municipal plan with \<open>r\<close> campaigns remaining.\<close>

definition municipalQuota :: "int \<Rightarrow> userData" where
  "municipalQuota r =
     \<lparr>planId = Some (js ''municipal''), planName = Some (js ''Municipal''), total = Some 3,
      remaining = Some r, purchaseDate = Some 1, paymentId' = Some (js ''pay_FIRST12345'')\<rparr>"

text \<open>The draft in the verification step, a well-formed payment id entered, over a given stored quota.\<close>

definition verifying :: "userData option \<Rightarrow> wizard" where
  "verifying q =
     draft\<lparr>step := 4, paymentId := js ''pay_ABC123xyz9'',
           localStorage := emptyStorage\<lparr>voteflow_user_campaigns := q\<rparr>\<rparr>"

text \<open>A plan with a ceiling of two messages, a small scan, and an extraction of three voters.\<close>

definition smallPlan :: plan where
  "smallPlan = wardPlan\<lparr>maxMessages := Some 2\<rparr>"

definition rollPdf :: jsfile where
  "rollPdf = \<lparr>file_name = js ''Roll.PDF'', file_size = 4096, file_text = []\<rparr>"

definition bala :: voter where
  "bala = \<lparr>NAME = js ''Bala'', MOBILE = js ''N/A''\<rparr>"

definition threeVoters :: extractData where
  "threeVoters = \<lparr>ex_voters = [asha, bala, asha], total_count = 3, with_mobile = 2, ex_log = []\<rparr>"

text \<open>An extraction of 2001 voters, one more than the municipal ceiling of the catalogue.\<close>

definition manyVoters :: extractData where
  "manyVoters =
     \<lparr>ex_voters = replicate 2001 asha, total_count = 2001, with_mobile = 2001, ex_log = []\<rparr>"

text \<open>A scan of 11 MB.\<close>

definition bigPdf :: jsfile where
  "bigPdf = \<lparr>file_name = js ''roll.pdf'', file_size = 11 * 1024 * 1024, file_text = []\<rparr>"

text \<open>A console with a campaign in flight, and the events of the ordering example.\<close>

definition running :: dashboard where
  "running = initialDashboard\<lparr>connected := True, isRunning := True\<rparr>"

definition stats1of10 :: stats where
  "stats1of10 = \<lparr>stats_total = 10, sent = 1, failed = 0, progress = 10\<rparr>"

definition stats2of10 :: stats where
  "stats2of10 = \<lparr>stats_total = 10, sent = 2, failed = 0, progress = 20\<rparr>"

definition logA :: event where
  "logA = EvLog (js ''A'') None None"

text \<open>A paying operator's way from the composition step to the launch.\<close>

definition paidRun :: "action list" where
  "paidRun =
     [Continue zeroClock (Threw []),
      Pay zeroClock,
      EditPaymentId (js ''pay_ABC123xyz9''),
      Verify zeroClock (Replied (VerifyReply True None)) (Replied (StartSuccess (js ''c1'')))]"

definition payLink :: jsstring where
  "payLink = js ''https://rzp.io/l/voteflow''"


section \<open>Properties of the visible log\<close>

lemma slice_from_neg: "0 < k \<Longrightarrow> slice_from (- int k) xs = drop (length xs - k) xs"
  by (auto simp: slice_from_def rel_index_def max_def nat_diff_distrib')

lemma length_addLog: "length (addLog c m t prev) = min (length prev) 50 + 1"
  using slice_from_neg[of 50 prev] by (simp add: addLog_def)

lemma addLog_last51: "addLog c m t prev = slice_from (- 51) (prev @ [mkEntry c m t])"
  using slice_from_neg[of 50 prev] slice_from_neg[of 51 "prev @ [mkEntry c m t]"]
  by (simp add: addLog_def Suc_diff_le)

lemma addLogs_snoc:
  "addLogs (evs @ [ev]) l = addLog (fst ev) (fst (snd ev)) (snd (snd ev)) (addLogs evs l)"
  by (simp add: addLogs_def split: prod.splits)

lemma slice_from_51_snoc:
  "slice_from (- 51) (slice_from (- 51) xs @ [x]) = slice_from (- 51) (xs @ [x])"
proof -
  have a: "slice_from (- 51) xs = drop (length xs - 51) xs" for xs :: "'a list"
    using slice_from_neg[of 51 xs] by simp
  show ?thesis
  proof (cases "length xs \<le> 51")
    case True
    then show ?thesis by (simp add: a)
  next
    case False
    then have "Suc (length xs - 51) = length xs - 50" by arith
    with False show ?thesis by (simp add: a)
  qed
qed

text \<open>
  Insertion order is preserved: after at least one append the log is the tail of
  everything appended so far, in arrival order. The tail has up to 51 entries, because
  the update keeps 50 old entries and then adds the new one.
\<close>

lemma addLogs_last51:
  "evs \<noteq> [] \<Longrightarrow> addLogs evs l = slice_from (- 51) (l @ map entryOf evs)"
proof (induction evs rule: rev_induct)
  case Nil
  then show ?case by simp
next
  case (snoc ev evs)
  show ?case
  proof (cases "evs = []")
    case True
    then show ?thesis
      by (simp add: addLogs_def addLog_last51 entryOf_def split: prod.splits)
  next
    case False
    with snoc have IH: "addLogs evs l = slice_from (- 51) (l @ map entryOf evs)"
      by simp
    have "addLogs (evs @ [ev]) l =
          slice_from (- 51) (slice_from (- 51) (l @ map entryOf evs) @ [entryOf ev])"
      by (simp add: addLogs_snoc IH addLog_last51 entryOf_def split: prod.splits)
    also have "\<dots> = slice_from (- 51) (l @ map entryOf (evs @ [ev]))"
      by (simp add: slice_from_51_snoc)
    finally show ?thesis .
  qed
qed

lemma length_addLogs: "length l \<le> 51 \<Longrightarrow> length (addLogs evs l) \<le> 51"
  by (induction evs rule: rev_induct)
     (simp_all add: addLogs_def length_addLog split: prod.splits)

lemma entryOf_logEvent_no: "entryOf (logEvent_no i) = entry_no i"
  by (simp add: entryOf_def logEvent_no_def entry_no_def)

lemma str_includes_set: "str_includes s p \<Longrightarrow> set p \<subseteq> set s"
proof (induction s)
  case Nil
  then show ?case by simp
next
  case (Cons c cs)
  show ?case
  proof (cases "str_startsWith (c # cs) p")
    case True
    then have "p = take (length p) (c # cs)"
      by (simp add: str_startsWith_def)
    then have "set p \<subseteq> set (c # cs)"
      by (metis set_take_subset)
    then show ?thesis .
  next
    case False
    with Cons show ?thesis by auto
  qed
qed

lemma set_show_nat: "set (show_nat n) \<subseteq> {48..57}"
proof (induction n rule: show_nat.induct)
  case (1 n)
  show ?case
  proof (cases "n < 10")
    case True
    then show ?thesis by (subst show_nat.simps) auto
  next
    case False
    have "n mod 10 < 10" by simp
    then have "48 + n mod 10 \<in> {48..57}" by auto
    with False 1 show ?thesis by (subst show_nat.simps) auto
  qed
qed

lemma line_not_noisy: "\<not> noisy (js ''line '' @ show_nat i)"
proof
  assume "noisy (js ''line '' @ show_nat i)"
  then consider "str_includes (js ''line '' @ show_nat i) (js ''<unknown>'')"
    | "str_includes (js ''line '' @ show_nat i) (js ''0x'')"
    | "str_includes (js ''line '' @ show_nat i) (js ''Stacktrace'')"
    unfolding noisy_def by blast
  then have "60 \<in> set (js ''line '' @ show_nat i) \<or> 120 \<in> set (js ''line '' @ show_nat i)
      \<or> 83 \<in> set (js ''line '' @ show_nat i)"
  proof cases
    case 1
    from str_includes_set[OF this] show ?thesis by (simp add: js_def)
  next
    case 2
    from str_includes_set[OF this] show ?thesis by (simp add: js_def)
  next
    case 3
    from str_includes_set[OF this] show ?thesis by (simp add: js_def)
  qed
  moreover have "set (js ''line '') = {108, 105, 110, 101, 32}"
    by (simp add: js_def)
  ultimately show False using set_show_nat[of i] by auto
qed

lemma addLog_v2_quiet: "\<not> noisy msg \<Longrightarrow> addLog_v2 c msg ty prev = addLog c msg ty prev"
  by (simp add: addLog_v2_def addLog_def noisy_def)

lemma addLogs_v2_quiet:
  "\<forall>ev \<in> set evs. \<not> noisy (fst (snd ev)) \<Longrightarrow> addLogs_v2 evs l = addLogs evs l"
  by (induction evs arbitrary: l) (auto simp: addLogs_v2_def addLogs_def addLog_v2_quiet)

lemma sixty_events: "addLogs (map logEvent_no [0..<60]) [] = map entry_no [9..<60]"
proof -
  have "addLogs (map logEvent_no [0..<60]) [] = slice_from (- 51) (map entry_no [0..<60])"
    by (subst addLogs_last51) (simp_all add: entryOf_logEvent_no comp_def)
  also have "\<dots> = drop 9 (map entry_no [0..<60])"
    using slice_from_neg[of 51 "map entry_no [0..<60]"] by simp
  also have "\<dots> = map entry_no [9..<60]"
    by (simp add: drop_map)
  finally show ?thesis .
qed

lemma sixty_events_v2:
  "addLogs_v2 (map logEvent_no [0..<60]) [] = addLogs (map logEvent_no [0..<60]) []"
proof (rule addLogs_v2_quiet, rule ballI)
  fix ev
  assume "ev \<in> set (map logEvent_no [0..<60])"
  then obtain i where "ev = logEvent_no i"
    unfolding set_map by blast
  then show "\<not> noisy (fst (snd ev))"
    by (simp add: logEvent_no_def line_not_noisy)
qed

text \<open>
  Claim C1. The claim: the visible log never holds more than 50 entries and keeps
  insertion order; 60 sequential log events appended to an empty log leave exactly the
  most recent 50, oldest first. On the code, in both revisions of the console, the same
  60 events leave 51 entries: the events number 9 to 59, oldest first. Order is kept,
  the bound of 50 is exceeded by one.
\<close>

theorem addLog_sixty_events_leave_51:
  "addLogs (map logEvent_no [0..<60]) [] = map entry_no [9..<60]
   \<and> length (addLogs (map logEvent_no [0..<60]) []) = 51
   \<and> addLogs_v2 (map logEvent_no [0..<60]) [] = map entry_no [9..<60]
   \<and> length (addLogs_v2 (map logEvent_no [0..<60]) []) = 51"
  by (simp add: sixty_events_v2 sixty_events)

section \<open>Properties of the delimited-text parser\<close>

lemma replace_nondigit: "replace_all non_digit_class [] f = digitsOf f"
  by (induction f) (auto simp: replace_all_def non_digit_class_def digitsOf_def)

lemma replace_quote: "replace_all (Ranges [(0x22, 0x22)]) [] f = filter (\<lambda>c. c \<noteq> 0x22) f"
  by (induction f) (auto simp: replace_all_def)

lemma mobilePattern_test:
  "regex_test mobilePattern t = (case t of [] \<Rightarrow> False | c # cs \<Rightarrow> 0x36 \<le> c \<and> c \<le> 0x39)"
  by (cases t) (auto simp: regex_test_def mobilePattern_def match_items.simps)

lemma mobile_test: "(length phone = 10 \<and> regex_test mobilePattern phone) = isMobile phone"
  by (simp add: isMobile_def mobilePattern_test)

lemma clean_eq: "(\<lambda>p. replace_all (Ranges [(0x22, 0x22)]) [] (str_trim p)) = cleanField"
  by (simp add: fun_eq_iff cleanField_def replace_quote)

text \<open>The \<^verbatim>\<open>for\<close> loop with its \<^verbatim>\<open>break\<close> finds the first matching field from index \<open>i\<close> on.\<close>

lemma scanParts_find:
  "scanParts name parts i =
     (case find (\<lambda>f. isMobile (digitsOf f)) (drop i parts) of
        None \<Rightarrow> []
      | Some f \<Rightarrow> [\<lparr>NAME = name, MOBILE = digitsOf f\<rparr>])"
proof (induction name parts i rule: scanParts.induct)
  case (1 name parts i)
  show ?case
  proof (cases "i < length parts")
    case False
    then show ?thesis by (subst scanParts.simps) simp
  next
    case True
    then have d: "drop i parts = parts ! i # drop (Suc i) parts"
      by (simp add: Cons_nth_drop_Suc)
    show ?thesis
    proof (cases "isMobile (digitsOf (parts ! i))")
      case True
      with \<open>i < length parts\<close> show ?thesis
        by (subst scanParts.simps) (simp add: d replace_nondigit mobile_test)
    next
      case False
      with \<open>i < length parts\<close> 1 show ?thesis
        by (subst scanParts.simps) (simp add: d replace_nondigit mobile_test)
    qed
  qed
qed

lemma str_split_nonempty: "str_split sep s \<noteq> []"
  by (induction s) (auto split: list.splits)

lemma str_split_line: "sep \<notin> set h \<Longrightarrow> str_split sep (h @ sep # rest) = h # str_split sep rest"
  by (induction h) (auto simp: str_split_nonempty split: list.splits)

lemma parseLine_contact: "parseLine line = contact_of_line line"
proof -
  obtain f fs where s: "str_split 0x2C line = f # fs"
    using str_split_nonempty[of "0x2C" line] by (cases "str_split 0x2C line") auto
  show ?thesis
  proof (cases fs)
    case Nil
    with s show ?thesis
      by (simp add: parseLine_def contact_of_line_def clean_eq)
  next
    case (Cons g gs)
    with s show ?thesis
      by (simp add: parseLine_def contact_of_line_def scanParts_find clean_eq)
  qed
qed

lemma forEachLine_Suc: "forEachLine ls (Suc n) acc = acc @ concat (map parseLine ls)"
  by (induction ls arbitrary: n acc) auto

lemma forEachLine_0: "forEachLine ls 0 acc = acc @ concat (map parseLine (drop 1 ls))"
  by (cases ls) (auto simp: forEachLine_Suc)

lemma parseCSV_eq: "parseCSV text = concat (map contact_of_line (drop 1 (csv_lines text)))"
proof -
  have "parseLine = contact_of_line"
    by (rule ext) (rule parseLine_contact)
  then show ?thesis
    by (simp add: parseCSV_def forEachLine_0)
qed

text \<open>
  The first line of a text never yields a contact, whatever it holds: a blank first
  line is dropped, and then the header is looked for in the rest; any other first line is
  the header and is skipped.
\<close>

lemma parseCSV_header_line:
  "0x0A \<notin> set h \<Longrightarrow>
   parseCSV (h @ 0x0A # rest) =
     (if str_trim h = [] then parseCSV rest else concat (map contact_of_line (csv_lines rest)))"
  by (simp add: parseCSV_eq csv_lines_def str_split_line)

text \<open>
  Claim C5, as stated, fails on a text whose first line is blank: blank lines are removed
  before the lines are numbered, so the line after a blank first line is taken for the
  header. In the text below the second line holds a valid number and is not the first
  line, yet no contact is produced.
\<close>

theorem parseCSV_blank_first_line_counterexample:
  "parseCSV (0x0A # js ''Asha,9876543210'') = []
   \<and> claimed_contacts (0x0A # js ''Asha,9876543210'')
       = [\<lparr>NAME = js ''Asha'', MOBILE = js ''9876543210''\<rparr>]"
  by code_simp

text \<open>
  Claim C5, amended. Blank lines (empty after trimming) are discarded first. Of the
  remaining lines the first never yields a contact; every other one is split on commas,
  every field is trimmed and stripped of double quotes, field 0 is the name, and the
  first later field whose digits are exactly 10 and begin with 6 to 9 gives the mobile
  number (its digits); a line with no such field contributes nothing. The row
  \<^verbatim>\<open>Asha,9876543210\<close> yields the contact Asha / 9876543210, the row \<^verbatim>\<open>Bala,12345\<close> yields none.
\<close>

theorem parseCSV_skips_header_and_scans_fields:
  "parseCSV text =
     concat (map contact_of_line (drop 1 (filter (\<lambda>line. str_trim line \<noteq> []) (str_split 0x0A text))))
   \<and> contact_of_line (js ''Asha,9876543210'') = [\<lparr>NAME = js ''Asha'', MOBILE = js ''9876543210''\<rparr>]
   \<and> contact_of_line (js ''Bala,12345'') = []"
proof -
  have "contact_of_line (js ''Asha,9876543210'') = [\<lparr>NAME = js ''Asha'', MOBILE = js ''9876543210''\<rparr>]"
    by code_simp
  moreover have "contact_of_line (js ''Bala,12345'') = []"
    by code_simp
  ultimately show ?thesis
    using parseCSV_eq[of "text"] by (simp add: csv_lines_def)
qed

theorem parseCSV_skips_header_and_scans_fields_witness:
  "parseCSV (js ''NAME,PHONE'' @ [0x0A] @ js ''Asha,9876543210'' @ [0x0A] @ js ''Bala,12345'')
   = [\<lparr>NAME = js ''Asha'', MOBILE = js ''9876543210''\<rparr>]"
proof -
  have a: "concat (map contact_of_line (drop 1 (filter (\<lambda>line. str_trim line \<noteq> [])
          (str_split 0x0A (js ''NAME,PHONE'' @ [0x0A] @ js ''Asha,9876543210'' @ [0x0A] @ js ''Bala,12345'')))))
        = [\<lparr>NAME = js ''Asha'', MOBILE = js ''9876543210''\<rparr>]"
    by code_simp
  have b: "parseCSV (js ''NAME,PHONE'' @ [0x0A] @ js ''Asha,9876543210'' @ [0x0A] @ js ''Bala,12345'')
        = concat (map contact_of_line (drop 1 (filter (\<lambda>line. str_trim line \<noteq> [])
          (str_split 0x0A (js ''NAME,PHONE'' @ [0x0A] @ js ''Asha,9876543210'' @ [0x0A] @ js ''Bala,12345'')))))"
    using parseCSV_skips_header_and_scans_fields by blast
  show ?thesis
    by (simp only: a b)
qed

section \<open>Properties of the payment reference check\<close>

lemma match_literal:
  "match_items (Lit ch # its) e s =
     (case s of [] \<Rightarrow> False | c # cs \<Rightarrow> c = of_char ch \<and> match_items its e cs)"
  by (cases s) (auto simp: Lit_def match_items.simps)

lemma match_last_class:
  "match_items [Rep cls lo hi] True s =
     (lo \<le> length s \<and> length s \<le> hi \<and> list_all (in_cclass cls) s)"
proof -
  have "match_items [Rep cls lo hi] True s
        = (\<exists>k\<in>set [lo..<Suc hi]. k \<le> length s \<and> list_all (in_cclass cls) (take k s) \<and> drop k s = [])"
    by (simp add: list_ex_iff match_items.simps)
  also have "\<dots> = (lo \<le> length s \<and> length s \<le> hi \<and> list_all (in_cclass cls) s)"
  proof
    assume "\<exists>k\<in>set [lo..<Suc hi]. k \<le> length s \<and> list_all (in_cclass cls) (take k s) \<and> drop k s = []"
    then obtain k where k: "lo \<le> k" "k \<le> hi" "k \<le> length s"
        "list_all (in_cclass cls) (take k s)" "drop k s = []"
      by auto
    then have "k = length s" by simp
    with k show "lo \<le> length s \<and> length s \<le> hi \<and> list_all (in_cclass cls) s" by simp
  next
    assume a: "lo \<le> length s \<and> length s \<le> hi \<and> list_all (in_cclass cls) s"
    then have "length s \<in> set [lo..<Suc hi]" by auto
    with a show "\<exists>k\<in>set [lo..<Suc hi]. k \<le> length s \<and> list_all (in_cclass cls) (take k s) \<and> drop k s = []"
      by (intro bexI[of _ "length s"]) simp_all
  qed
  finally show ?thesis .
qed

lemma alnum_class:
  "in_cclass (Ranges [(0x61, 0x7A), (0x41, 0x5A), (0x30, 0x39)]) c = isAlphanumeric c"
  by (simp add: isAlphanumeric_def)

text \<open>The regular expression of the source accepts exactly the shape of the specification.\<close>

lemma paymentIdPattern_shape: "regex_test paymentIdPattern s = shape_ok s"
proof -
  have cls: "in_cclass (Ranges [(0x61, 0x7A), (0x41, 0x5A), (0x30, 0x39)]) = isAlphanumeric"
    by (rule ext) (rule alnum_class)
  have "regex_test paymentIdPattern s =
        (case s of c1 # c2 # c3 # c4 # r \<Rightarrow> c1 = 112 \<and> c2 = 97 \<and> c3 = 121 \<and> c4 = 95
             \<and> 10 \<le> length r \<and> length r \<le> 30 \<and> list_all isAlphanumeric r | _ \<Rightarrow> False)"
    by (simp add: regex_test_def paymentIdPattern_def match_literal match_last_class cls
             split: list.splits)
  also have "\<dots> = shape_ok s"
    by (auto simp: shape_ok_def js_def split: list.splits)
  finally show ?thesis .
qed

lemma shape_ok_iff:
  "shape_ok s =
     (\<exists>r. s = js ''pay_'' @ r \<and> 10 \<le> length r \<and> length r \<le> 30 \<and> (\<forall>c\<in>set r. isAlphanumeric c))"
proof
  assume a: "shape_ok s"
  then have "s = js ''pay_'' @ drop 4 s"
    unfolding shape_ok_def by (metis append_take_drop_id)
  with a show "\<exists>r. s = js ''pay_'' @ r \<and> 10 \<le> length r \<and> length r \<le> 30 \<and> (\<forall>c\<in>set r. isAlphanumeric c)"
    unfolding shape_ok_def list_all_iff by blast
next
  assume "\<exists>r. s = js ''pay_'' @ r \<and> 10 \<le> length r \<and> length r \<le> 30 \<and> (\<forall>c\<in>set r. isAlphanumeric c)"
  then obtain r where "s = js ''pay_'' @ r" "10 \<le> length r" "length r \<le> 30"
      "\<forall>c\<in>set r. isAlphanumeric c"
    by blast
  moreover have "length (js ''pay_'') = 4"
    by (simp add: js_def)
  ultimately show "shape_ok s"
    by (simp add: shape_ok_def list_all_iff)
qed

lemma handleVerifyPayment_shape_mismatch:
  "\<not> regex_test paymentIdPattern (paymentId w) \<Longrightarrow>
   handleVerifyPayment dateNow verifyRes startRes w =
     (w\<lparr>isProcessing := False, error := invalidPaymentIdMessage\<rparr>,
      [SetError [], SetError invalidPaymentIdMessage])"
  by (simp add: handleVerifyPayment_def)

text \<open>
  Claim C4. A payment reference passes the local shape check if and only if it is the
  prefix \<^verbatim>\<open>pay_\<close> followed by 10 to 30 alphanumeric characters. When the check fails, the
  handler sends no request: it shows the format error, ends the processing indicator, and
  leaves every other part of the state (step, draft, stored records) as it was.
\<close>

theorem paymentId_shape_check:
  "(regex_test paymentIdPattern s \<longleftrightarrow>
      (\<exists>r. s = js ''pay_'' @ r \<and> 10 \<le> length r \<and> length r \<le> 30 \<and> (\<forall>c\<in>set r. isAlphanumeric c)))
   \<and> (\<not> regex_test paymentIdPattern (paymentId w) \<longrightarrow>
        handleVerifyPayment dateNow verifyRes startRes w =
          (w\<lparr>isProcessing := False, error := invalidPaymentIdMessage\<rparr>,
           [SetError [], SetError invalidPaymentIdMessage])
        \<and> requests (snd (handleVerifyPayment dateNow verifyRes startRes w)) = [])"
  using paymentIdPattern_shape[of s] shape_ok_iff[of s]
        handleVerifyPayment_shape_mismatch[of w dateNow verifyRes startRes]
  by simp

theorem paymentId_shape_check_witness:
  "regex_test paymentIdPattern (js ''pay_ABC123xyz9'')
   \<and> \<not> regex_test paymentIdPattern (js ''pay_123'')
   \<and> \<not> regex_test paymentIdPattern (js ''xyz_ABC123xyz9'')
   \<and> handleVerifyPayment zeroClock (Threw []) (Threw []) (draft\<lparr>step := 4, paymentId := js ''pay_123''\<rparr>)
       = (draft\<lparr>step := 4, paymentId := js ''pay_123'', isProcessing := False,
                error := invalidPaymentIdMessage\<rparr>,
          [SetError [], SetError invalidPaymentIdMessage])
   \<and> requests (snd (handleVerifyPayment zeroClock (Threw []) (Threw [])
                       (draft\<lparr>step := 4, paymentId := js ''pay_123''\<rparr>))) = []"
proof -
  have a: "regex_test paymentIdPattern (js ''pay_ABC123xyz9'')"
    by code_simp
  have b: "\<not> regex_test paymentIdPattern (js ''pay_123'')"
    by code_simp
  have c: "\<not> regex_test paymentIdPattern (js ''xyz_ABC123xyz9'')"
    by code_simp
  from b have "\<not> regex_test paymentIdPattern (paymentId (draft\<lparr>step := 4, paymentId := js ''pay_123''\<rparr>))"
    by simp
  with paymentId_shape_check[of _ "draft\<lparr>step := 4, paymentId := js ''pay_123''\<rparr>" zeroClock "Threw []" "Threw []"]
  have "handleVerifyPayment zeroClock (Threw []) (Threw []) (draft\<lparr>step := 4, paymentId := js ''pay_123''\<rparr>)
       = ((draft\<lparr>step := 4, paymentId := js ''pay_123''\<rparr>)\<lparr>isProcessing := False,
                error := invalidPaymentIdMessage\<rparr>,
          [SetError [], SetError invalidPaymentIdMessage])
   \<and> requests (snd (handleVerifyPayment zeroClock (Threw []) (Threw [])
                       (draft\<lparr>step := 4, paymentId := js ''pay_123''\<rparr>))) = []"
    by blast
  with a b c show ?thesis by simp
qed

section \<open>Properties of the quota record\<close>

text \<open>
  The stored quota after \<open>handleVerifyPayment\<close>: rewritten in the success branch,
  untouched in every other branch.
\<close>

lemma handleVerifyPayment_quota:
  "voteflow_user_campaigns (localStorage (fst (handleVerifyPayment dateNow verifyRes startRes w))) =
     (if launchOk w verifyRes startRes
      then Some (updateCampaignCount (voteflow_user_campaigns (localStorage w)) (selectedPlan w)
                   (paymentId w) dateNow)
      else voteflow_user_campaigns (localStorage w))"
  by (simp add: handleVerifyPayment_def launchOk_def Let_def
           split: response.splits verifyReply.splits startReply.splits)

lemma updateCampaignCount_cases:
  "updateCampaignCount existingData p pid dateNow =
     (if planId (parsedUserData existingData) \<noteq> plan_id p
      then \<lparr>planId = plan_id p, planName = Some (plan_name p),
            total = campaigns p, remaining = map_option (\<lambda>c. c - 1) (campaigns p),
            purchaseDate = Some (dateNow 0), paymentId' = Some pid\<rparr>
      else (parsedUserData existingData)
             \<lparr>remaining := Some (max 0 (numberOf (remaining (parsedUserData existingData)) - 1))\<rparr>)"
  by (simp add: updateCampaignCount_def Let_def)

lemma pid_ok: "regex_test paymentIdPattern (js ''pay_ABC123xyz9'')"
  by code_simp

lemma verifying_simps:
  "paymentId (verifying q) = js ''pay_ABC123xyz9''"
  "voteflow_user_campaigns (localStorage (verifying q)) = q"
  "selectedPlan (verifying q) = municipalPlan"
  by (simp_all add: verifying_def draft_def initModal_def emptyStorage_def)

lemma municipalPlan_simps:
  "plan_id municipalPlan = Some (js ''municipal'')"
  "plan_name municipalPlan = js ''Municipal''"
  "campaigns municipalPlan = Some 3"
  by (simp_all add: municipalPlan_def)

lemma municipalQuota_simps:
  "planId (municipalQuota r) = Some (js ''municipal'')"
  "remaining (municipalQuota r) = Some r"
  "(municipalQuota r)\<lparr>remaining := Some v\<rparr> = municipalQuota v"
  by (simp_all add: municipalQuota_def)

text \<open>
  With the plan object that \<^verbatim>\<open>App.jsx\<close> hands over, which has no \<^verbatim>\<open>id\<close>, a first purchase does
  not count as a new plan: nothing is stored, so the stored plan id and the plan's id are
  both \<^verbatim>\<open>undefined\<close>, and the record written is \<^verbatim>\<open>{ total: 0, remaining: 0 }\<close>.
\<close>

lemma first_purchase_with_defaultPlan:
  "updateCampaignCount None defaultPlan pid dateNow =
     \<lparr>planId = None, planName = None, total = Some 0, remaining = Some 0,
      purchaseDate = None, paymentId' = None\<rparr>"
  by (simp add: updateCampaignCount_cases parsedUserData_def defaultPlan_def numberOf_def)

text \<open>
  Claim C3, as stated, fails when the verification succeeds and the start request that
  follows it fails: the record is then neither replaced nor decremented. A stored
  municipal record with 2 campaigns remaining still has 2 after such a verification.
\<close>

theorem quota_unchanged_when_start_fails_counterexample:
  "voteflow_user_campaigns (localStorage (fst (handleVerifyPayment zeroClock
      (Replied (VerifyReply True None)) (Replied (StartFailure None))
      (verifying (Some (municipalQuota 2))))))
   = Some (municipalQuota 2)"
  by (simp add: handleVerifyPayment_quota launchOk_def verifying_simps)

text \<open>
  Claim C3, amended. For every payment verification that succeeds and whose start
  request then succeeds: if the stored quota record's plan id differs from the purchased
  plan's id, the record is replaced wholesale, with the total set to the plan's campaign
  quota and the remaining count to the quota minus one; if the plan id matches, only the
  remaining count changes: it is decremented by one with a floor of zero. The two ids
  are compared as the code compares them: the record read is \<open>parsedUserData\<close> of the
  stored value, and an id that the record or the plan does not have is \<^verbatim>\<open>undefined\<close>.
\<close>

theorem quota_update_after_launch:
  assumes "regex_test paymentIdPattern (paymentId w)"
      and "verifyRes = Replied (VerifyReply True m)"
      and "startRes = Replied (StartSuccess cid)"
      and "u = parsedUserData (voteflow_user_campaigns (localStorage w))"
      and "p = selectedPlan w"
  shows "(planId u \<noteq> plan_id p \<longrightarrow>
            voteflow_user_campaigns (localStorage (fst (handleVerifyPayment dateNow verifyRes startRes w))) =
              Some \<lparr>planId = plan_id p, planName = Some (plan_name p),
                     total = campaigns p, remaining = map_option (\<lambda>q. q - 1) (campaigns p),
                     purchaseDate = Some (dateNow 0), paymentId' = Some (paymentId w)\<rparr>)
         \<and> (planId u = plan_id p \<longrightarrow>
            voteflow_user_campaigns (localStorage (fst (handleVerifyPayment dateNow verifyRes startRes w))) =
              Some (u\<lparr>remaining := Some (max 0 (numberOf (remaining u) - 1))\<rparr>)
            \<and> 0 \<le> max 0 (numberOf (remaining u) - 1))"
proof -
  from assms(1-3) have "launchOk w verifyRes startRes"
    by (simp add: launchOk_def)
  with assms(4,5) show ?thesis
    by (simp add: handleVerifyPayment_quota updateCampaignCount_cases)
qed

theorem quota_update_after_launch_witness:
  "voteflow_user_campaigns (localStorage (fst (handleVerifyPayment zeroClock
      (Replied (VerifyReply True None)) (Replied (StartSuccess (js ''c1'')))
      (verifying (Some (municipalQuota 2))))))
     = Some (municipalQuota 1)
   \<and> voteflow_user_campaigns (localStorage (fst (handleVerifyPayment zeroClock
      (Replied (VerifyReply True None)) (Replied (StartSuccess (js ''c1'')))
      (verifying (Some (municipalQuota 0))))))
     = Some (municipalQuota 0)
   \<and> voteflow_user_campaigns (localStorage (fst (handleVerifyPayment zeroClock
      (Replied (VerifyReply True None)) (Replied (StartSuccess (js ''c1'')))
      (verifying (Some ((municipalQuota 2)\<lparr>planId := Some (js ''ward'')\<rparr>))))))
     = Some \<lparr>planId = Some (js ''municipal''), planName = Some (js ''Municipal''), total = Some 3,
              remaining = Some 2, purchaseDate = Some 0, paymentId' = Some (js ''pay_ABC123xyz9'')\<rparr>"
proof -
  have ok: "regex_test paymentIdPattern (paymentId (verifying q))" for q
    by (simp add: verifying_simps pid_ok)
  have ne: "js ''ward'' \<noteq> js ''municipal''"
    by (simp add: js_def)
  show ?thesis
    using quota_update_after_launch[OF ok[of "Some (municipalQuota 2)"] refl refl refl refl,
            where m = None and cid = "js ''c1''" and dateNow = zeroClock]
          quota_update_after_launch[OF ok[of "Some (municipalQuota 0)"] refl refl refl refl,
            where m = None and cid = "js ''c1''" and dateNow = zeroClock]
          quota_update_after_launch
            [OF ok[of "Some ((municipalQuota 2)\<lparr>planId := Some (js ''ward'')\<rparr>)"] refl refl refl refl,
            where m = None and cid = "js ''c1''" and dateNow = zeroClock]
    by (simp add: verifying_simps municipalPlan_simps municipalQuota_simps parsedUserData_def
                  numberOf_def zeroClock_def ne)
qed

text \<open>
  Claim C10. The stored quota record is written only on the path where the
  verification returns verified and the start request that follows returns success. If
  the verification is rejected or throws, or the start request fails or throws, the
  stored record is left as it was.
\<close>

theorem quota_written_only_after_launch:
  "(voteflow_user_campaigns (localStorage (fst (handleVerifyPayment dateNow verifyRes startRes w)))
      \<noteq> voteflow_user_campaigns (localStorage w)
    \<longrightarrow> regex_test paymentIdPattern (paymentId w)
        \<and> (\<exists>m. verifyRes = Replied (VerifyReply True m))
        \<and> (\<exists>cid. startRes = Replied (StartSuccess cid)))
   \<and> (verifyRes = Replied (VerifyReply False m) \<or> verifyRes = Threw e
        \<or> startRes = Replied (StartFailure d) \<or> startRes = Threw e'
      \<longrightarrow> voteflow_user_campaigns (localStorage (fst (handleVerifyPayment dateNow verifyRes startRes w)))
           = voteflow_user_campaigns (localStorage w))
   \<and> (regex_test paymentIdPattern (paymentId w) \<and> verifyRes = Replied (VerifyReply True m')
        \<and> startRes = Replied (StartSuccess cid)
      \<longrightarrow> voteflow_user_campaigns (localStorage (fst (handleVerifyPayment dateNow verifyRes startRes w)))
           = Some (updateCampaignCount (voteflow_user_campaigns (localStorage w)) (selectedPlan w)
                     (paymentId w) dateNow))"
  by (auto simp: handleVerifyPayment_quota launchOk_def
           split: response.splits verifyReply.splits startReply.splits)

theorem quota_written_only_after_launch_witness:
  "voteflow_user_campaigns (localStorage (fst (handleVerifyPayment zeroClock
      (Replied (VerifyReply False (Some (js ''unknown payment'')))) (Replied (StartSuccess (js ''c1'')))
      (verifying (Some (municipalQuota 1))))))
     = Some (municipalQuota 1)
   \<and> voteflow_user_campaigns (localStorage (fst (handleVerifyPayment zeroClock
      (Replied (VerifyReply True None)) (Threw (js ''Failed to fetch''))
      (verifying (Some (municipalQuota 1))))))
     = Some (municipalQuota 1)
   \<and> voteflow_user_campaigns (localStorage (fst (handleVerifyPayment zeroClock
      (Replied (VerifyReply True None)) (Replied (StartSuccess (js ''c1'')))
      (verifying (Some (municipalQuota 1))))))
     = Some (municipalQuota 0)"
proof -
  have ok: "regex_test paymentIdPattern (paymentId (verifying q))" for q
    by (simp add: verifying_simps pid_ok)
  have u: "updateCampaignCount (Some (municipalQuota 1)) municipalPlan pid zeroClock = municipalQuota 0" for pid
    by (simp add: updateCampaignCount_cases parsedUserData_def municipalPlan_simps municipalQuota_simps
                  numberOf_def)
  show ?thesis
    using quota_written_only_after_launch
            [where dateNow = zeroClock
               and verifyRes = "Replied (VerifyReply False (Some (js ''unknown payment'')))"
               and startRes = "Replied (StartSuccess (js ''c1''))"
               and w = "verifying (Some (municipalQuota 1))"
               and m = "Some (js ''unknown payment'')"]
          quota_written_only_after_launch
            [where dateNow = zeroClock
               and verifyRes = "Replied (VerifyReply True None)"
               and startRes = "Threw (js ''Failed to fetch'')"
               and w = "verifying (Some (municipalQuota 1))"
               and e' = "js ''Failed to fetch''"]
          quota_written_only_after_launch
            [where dateNow = zeroClock
               and verifyRes = "Replied (VerifyReply True None)"
               and startRes = "Replied (StartSuccess (js ''c1''))"
               and w = "verifying (Some (municipalQuota 1))"
               and m' = None and cid = "js ''c1''"]
          ok[of "Some (municipalQuota 1)"]
    by (simp add: verifying_simps u)
qed

section \<open>Properties of the ingestion in the wizard and in the console\<close>

lemma slice_0: "slice 0 (int m) xs = take m xs"
  by (simp add: slice_def rel_index_def Let_def min_def)

lemma slice_from_0: "slice_from 0 xs = xs"
  by (simp add: slice_from_def rel_index_def)

lemma planLimit_nonempty: "planLimitMessage m \<noteq> []"
  by (simp add: planLimitMessage_def js_def)

text \<open>
  The wizard's handler on a file that passes the local checks and an extraction that
  succeeds, by the ceiling of the selected plan.
\<close>

lemma handleFileUpload_success:
  "str_endsWith (toLowerCase (file_name file)) (js ''.pdf'') \<Longrightarrow>
   file_size file \<le> 10 * 1024 * 1024 \<Longrightarrow>
   handleFileUpload (Some file) (Replied (ExtractSuccess data)) w =
     (case maxMessages (selectedPlan w) of
        None \<Rightarrow>
          (w\<lparr>votersFile := Some file, isExtracting := False, error := [],
             extractedVoters := ex_voters data, step := 2\<rparr>,
           [SetError [], Fetch (ExtractPdf file)])
      | Some m \<Rightarrow>
          if m < length (ex_voters data)
          then (w\<lparr>votersFile := Some file, isExtracting := False, error := planLimitMessage (Some m),
                   extractedVoters := take m (ex_voters data), step := 2\<rparr>,
                [SetError [], Fetch (ExtractPdf file), SetError (planLimitMessage (Some m))])
          else (w\<lparr>votersFile := Some file, isExtracting := False, error := [],
                   extractedVoters := take m (ex_voters data), step := 2\<rparr>,
                [SetError [], Fetch (ExtractPdf file)]))"
  by (simp add: handleFileUpload_def Let_def slice_upto_def greater_than_def slice_0 slice_from_0
           split: option.splits)

text \<open>
  For a plan that has a ceiling, the voter list kept is the first \<open>m\<close> contacts, the
  wizard advances to the composition step, and the plan-limit notice is raised exactly
  once when the extraction is longer than the ceiling and not at all otherwise.
\<close>

lemma handleFileUpload_truncates_with_ceiling:
  assumes "str_endsWith (toLowerCase (file_name file)) (js ''.pdf'')"
      and "file_size file \<le> 10 * 1024 * 1024"
      and "maxMessages (selectedPlan w) = Some m"
      and "handleFileUpload (Some file) (Replied (ExtractSuccess data)) w = (w', fx)"
  shows "length (extractedVoters w') = min (length (ex_voters data)) m
         \<and> extractedVoters w' = take m (ex_voters data)
         \<and> step w' = 2
         \<and> notices fx = (if m < length (ex_voters data) then [planLimitMessage (Some m)] else [])
         \<and> (m < length (ex_voters data) \<longrightarrow> error w' = planLimitMessage (Some m))"
  using assms(3,4) handleFileUpload_success[OF assms(1,2), of data w]
  by (auto simp: planLimit_nonempty min_def split: if_splits)

text \<open>For a plan object without a ceiling nothing is cut and no notice is raised.\<close>

lemma handleFileUpload_without_ceiling:
  assumes "str_endsWith (toLowerCase (file_name file)) (js ''.pdf'')"
      and "file_size file \<le> 10 * 1024 * 1024"
      and "maxMessages (selectedPlan w) = None"
  shows "extractedVoters (fst (handleFileUpload (Some file) (Replied (ExtractSuccess data)) w))
           = ex_voters data
         \<and> step (fst (handleFileUpload (Some file) (Replied (ExtractSuccess data)) w)) = 2
         \<and> notices (snd (handleFileUpload (Some file) (Replied (ExtractSuccess data)) w)) = []"
  using assms(3) handleFileUpload_success[OF assms(1,2), of data w]
  by simp

lemma rollPdf_ok: "str_endsWith (toLowerCase (file_name rollPdf)) (js ''.pdf'')"
  by code_simp

lemma rollPdf_size: "file_size rollPdf \<le> 10 * 1024 * 1024"
  by (simp add: rollPdf_def)

lemma truncation_example:
  "extractedVoters (fst (handleFileUpload (Some rollPdf) (Replied (ExtractSuccess threeVoters))
                      (initModal False (Some smallPlan) emptyStorage))) = [asha, bala]
   \<and> notices (snd (handleFileUpload (Some rollPdf) (Replied (ExtractSuccess threeVoters))
                      (initModal False (Some smallPlan) emptyStorage))) = [planLimitMessage (Some 2)]"
proof -
  have p: "maxMessages (selectedPlan (initModal False (Some smallPlan) emptyStorage)) = Some 2"
    by (simp add: initModal_def smallPlan_def)
  have v: "ex_voters threeVoters = [asha, bala, asha]"
    by (simp add: threeVoters_def)
  show ?thesis
    using handleFileUpload_truncates_with_ceiling[OF rollPdf_ok rollPdf_size p surjective_pairing,
            of threeVoters]
    by (simp add: v)
qed

text \<open>
  Claim C6. The claim: for every extracted contact sequence and every active plan the
  voter list kept has the length \<open>min (length of the sequence) (plan.maxMessages)\<close>, and
  a truncation raises a notice exactly once. The handler does this for a plan that
  carries \<^verbatim>\<open>maxMessages\<close> (\<open>handleFileUpload_truncates_with_ceiling\<close>). But the application
  mounts the wizard with its \<^verbatim>\<open>defaultPlan\<close>, the Municipal plan as a name and a price only:
  the ceiling read from it is \<^verbatim>\<open>undefined\<close>, \<^verbatim>\<open>slice(0, undefined)\<close> keeps every voter, and
  \<^verbatim>\<open>length > undefined\<close> is false. With an extraction of 2001 voters, one more than the
  ceiling of 2000 that the catalogue gives the Municipal plan, all 2001 are kept and no
  notice is raised.
\<close>

theorem wizard_mounted_by_app_keeps_all_voters:
  "length (extractedVoters (fst (handleFileUpload (Some rollPdf) (Replied (ExtractSuccess manyVoters))
                             (initModal False (Some defaultPlan) emptyStorage)))) = 2001
   \<and> notices (snd (handleFileUpload (Some rollPdf) (Replied (ExtractSuccess manyVoters))
                             (initModal False (Some defaultPlan) emptyStorage))) = []
   \<and> step (fst (handleFileUpload (Some rollPdf) (Replied (ExtractSuccess manyVoters))
                             (initModal False (Some defaultPlan) emptyStorage))) = 2
   \<and> plan_name defaultPlan = plan_name municipalPlan
   \<and> maxMessages municipalPlan = Some 2000"
proof -
  have p: "maxMessages (selectedPlan (initModal False (Some defaultPlan) emptyStorage)) = None"
    by (simp add: initModal_def defaultPlan_def)
  have v: "length (ex_voters manyVoters) = 2001"
    by (simp add: manyVoters_def)
  have n: "plan_name defaultPlan = plan_name municipalPlan \<and> maxMessages municipalPlan = Some 2000"
    by (simp add: defaultPlan_def municipalPlan_def)
  show ?thesis
    using handleFileUpload_without_ceiling[OF rollPdf_ok rollPdf_size p, of manyVoters] v n
    by simp
qed

text \<open>
  The wizard's scan path rejects a wrong extension and an oversized file before any
  request, changing nothing but the error slot.
\<close>

lemma handleFileUpload_rejects_format:
  "\<not> str_endsWith (toLowerCase (file_name file)) (js ''.pdf'') \<Longrightarrow>
   handleFileUpload (Some file) resp w =
     (w\<lparr>error := js ''Only PDF files are allowed''\<rparr>, [SetError (js ''Only PDF files are allowed'')])"
  by (simp add: handleFileUpload_def)

lemma handleFileUpload_rejects_size:
  "str_endsWith (toLowerCase (file_name file)) (js ''.pdf'') \<Longrightarrow>
   file_size file > 10 * 1024 * 1024 \<Longrightarrow>
   handleFileUpload (Some file) resp w =
     (w\<lparr>error := js ''File size must be less than 10MB''\<rparr>,
      [SetError (js ''File size must be less than 10MB'')])"
  by (simp add: handleFileUpload_def)

text \<open>The console's scan path rejects a wrong extension before any request.\<close>

lemma Dashboard_handleFileUpload_rejects_format:
  "\<not> str_endsWith (file_name file) (js ''.pdf'') \<Longrightarrow>
   Dashboard_handleFileUpload clk (Some file) resp d =
     (d\<lparr>logs := addLog (clk 0) (js ''Please upload a PDF file'') (Some (js ''error'')) (logs d)\<rparr>, [])"
  by (simp add: Dashboard_handleFileUpload_def)

lemma bigPdf_name: "str_endsWith (file_name bigPdf) (js ''.pdf'')"
  by code_simp

lemma bigPdf_lname: "str_endsWith (toLowerCase (file_name bigPdf)) (js ''.pdf'')"
  by code_simp

text \<open>
  Claim C7. The claim: every file submitted to the scan-path ingestion is rejected
  locally, before any dispatch, when its name does not end in the expected extension or
  when it is larger than 10 MB. The wizard's handler does both checks. The console's
  two scan-path handlers check the extension only: a PDF of 11 MB, which the wizard
  rejects as too large, is sent to the extraction service by \<open>Dashboard_handleFileUpload\<close>
  and by \<open>handleQuickUpload\<close>, whatever the service then replies.
\<close>

theorem Dashboard_upload_sends_oversized_pdf:
  "snd (Dashboard_handleFileUpload clk (Some bigPdf) resp d) = [ExtractPdf bigPdf]
   \<and> snd (handleQuickUpload clk (Some bigPdf) resp excelResp d) = [ExtractPdf bigPdf]
   \<and> handleFileUpload (Some bigPdf) resp w =
        (w\<lparr>error := js ''File size must be less than 10MB''\<rparr>,
         [SetError (js ''File size must be less than 10MB'')])"
proof -
  have s: "file_size bigPdf > 10 * 1024 * 1024"
    by (simp add: bigPdf_def)
  have a: "snd (Dashboard_handleFileUpload clk (Some bigPdf) resp d) = [ExtractPdf bigPdf]"
    using bigPdf_name
    by (simp add: Dashboard_handleFileUpload_def Let_def split: response.splits extractReply.splits)
  have b: "snd (handleQuickUpload clk (Some bigPdf) resp excelResp d) = [ExtractPdf bigPdf]"
    using bigPdf_lname
    by (simp add: handleQuickUpload_def Let_def split: response.splits extractReply.splits)
  have c: "handleFileUpload (Some bigPdf) resp w =
        (w\<lparr>error := js ''File size must be less than 10MB''\<rparr>,
         [SetError (js ''File size must be less than 10MB'')])"
    using bigPdf_lname s by (simp add: handleFileUpload_def)
  from a b c show ?thesis by simp
qed

section \<open>Properties of the telemetry handler\<close>

lemma deliver_snoc: "deliver (evs @ [(c, e)]) d = onmessage c e (deliver evs d)"
  by (simp add: deliver_def)

lemma addLog_empty: "addLog c m t [] = [mkEntry c m t]"
  by (simp add: addLog_def slice_from_def)

text \<open>No telemetry message changes the connection flag: only the socket's own events do.\<close>

lemma onmessage_connected: "connected (onmessage c e d) = connected d"
  by (cases e) (auto simp: Let_def split: option.splits)

lemma onmessage_v2_connected: "connected (onmessage_v2 apiBase c e d) = connected d"
  by (cases e) (auto simp: Let_def split: option.splits)

text \<open>
  Claim C2, as stated, fails for \<^verbatim>\<open>error\<close> events: in both revisions of the console an
  \<^verbatim>\<open>error\<close> event only appends to the log, and a campaign that was running is still shown
  as running afterwards.
\<close>

theorem error_event_keeps_running_counterexample:
  "isRunning (onmessage noon (EvError (js ''worker crashed'')) running) = True
   \<and> isRunning (onmessage_v2 (js ''http://localhost:8000'') noon
                   (EvError (js ''worker crashed'')) running) = True"
  by (simp add: running_def)

text \<open>
  Claim C2, amended. Processing a \<^verbatim>\<open>complete\<close> event sets the campaign-running indicator
  to false; processing an \<^verbatim>\<open>error\<close> event leaves the indicator as it was (the event is
  only logged); neither event changes the transport connection state.
\<close>

theorem complete_ends_running_error_only_logs:
  "isRunning (onmessage c EvComplete d) = False
   \<and> connected (onmessage c EvComplete d) = connected d
   \<and> isRunning (onmessage c (EvError msg) d) = isRunning d
   \<and> connected (onmessage c (EvError msg) d) = connected d
   \<and> isRunning (onmessage_v2 apiBase c EvComplete d) = False
   \<and> connected (onmessage_v2 apiBase c EvComplete d) = connected d
   \<and> isRunning (onmessage_v2 apiBase c (EvError msg) d) = isRunning d
   \<and> connected (onmessage_v2 apiBase c (EvError msg) d) = connected d"
  by simp

theorem complete_ends_running_error_only_logs_witness:
  "isRunning (onmessage noon EvComplete running) = False
   \<and> connected (onmessage noon EvComplete running) = True
   \<and> isRunning (onmessage noon (EvError (js ''timeout'')) running) = True
   \<and> connected (onmessage noon (EvError (js ''timeout'')) running) = True"
  using complete_ends_running_error_only_logs[of noon running "js ''timeout''"]
  by (simp add: running_def)

text \<open>
  What the handler does with one message, in terms of what the message contributes: the
  counters are replaced by the counters the message carries, if any, and the log gets the
  line of the message, if any.
\<close>

lemma stats_onmessage:
  "stats (onmessage c e d) = (case statsOf e of None \<Rightarrow> stats d | Some x \<Rightarrow> x)"
  by (cases e) (auto simp: Let_def split: option.splits)

lemma logs_onmessage:
  "logs (onmessage c e d) =
     (case logLineOf (c, e) of None \<Rightarrow> logs d | Some l \<Rightarrow> addLogs [l] (logs d))"
  by (cases e) (auto simp: Let_def addLogs_def split: option.splits)

lemma deliver_Cons: "deliver ((c, e) # evs) d = deliver evs (onmessage c e d)"
  by (simp add: deliver_def)

lemma addLogs_Cons: "addLogs (l # ls) acc = addLogs ls (addLogs [l] acc)"
  by (simp add: addLogs_def)

text \<open>
  After any sequence of messages the counters are those of the last message that
  carried counters, and the log is the log lines of the messages appended in the order
  of receipt, one entry for each.
\<close>

lemma deliver_stats:
  "stats (deliver evs d) = last (stats d # List.map_filter (\<lambda>ce. statsOf (snd ce)) evs)"
proof (induction evs arbitrary: d)
  case Nil
  then show ?case by (simp add: deliver_def)
next
  case (Cons ce evs)
  obtain c e where ce: "ce = (c, e)" by (cases ce)
  show ?case
  proof (cases "statsOf e")
    case None
    with Cons[of "onmessage c e d"] show ?thesis
      by (simp add: ce deliver_Cons stats_onmessage)
  next
    case (Some x)
    with Cons[of "onmessage c e d"] show ?thesis
      by (simp add: ce deliver_Cons stats_onmessage)
  qed
qed

lemma deliver_logs:
  "logs (deliver evs d) = addLogs (List.map_filter logLineOf evs) (logs d)"
proof (induction evs arbitrary: d)
  case Nil
  then show ?case by (simp add: deliver_def addLogs_def)
next
  case (Cons ce evs)
  obtain c e where ce: "ce = (c, e)" by (cases ce)
  show ?case
  proof (cases "logLineOf (c, e)")
    case None
    with Cons[of "onmessage c e d"] show ?thesis
      by (simp add: ce deliver_Cons logs_onmessage)
  next
    case (Some l)
    with Cons[of "onmessage c e d"] show ?thesis
      by (simp add: ce deliver_Cons logs_onmessage
                    addLogs_Cons[of l "List.map_filter logLineOf evs"])
  qed
qed

text \<open>
  Moving the log message of the example in front of the first counters message changes
  the clock reading at which it is handled, from the second reading to the first. The
  final state is the same exactly when these two readings are the same.
\<close>

lemma log_moved_same_state_iff_same_reading:
  "deliverAt [c1, c2, c3] [logA, EvStats stats1of10, EvStats stats2of10] initialDashboard
     = deliverAt [c1, c2, c3] [EvStats stats1of10, logA, EvStats stats2of10] initialDashboard
   \<longleftrightarrow> c1 = c2"
  by (auto simp: deliverAt_def deliver_def logA_def initialDashboard_def addLog_empty mkEntry_def)

text \<open>
  Claim C8, as stated, fails in its last part: not every other order of the three events
  gives a different final state. When the three messages are handled at one and the same
  clock reading, the order with the log message first ends in the same state as the
  order of the claim.
\<close>

theorem telemetry_reorder_same_state_counterexample:
  "deliverAt [noon, noon, noon] [logA, EvStats stats1of10, EvStats stats2of10] initialDashboard
   = deliverAt [noon, noon, noon] [EvStats stats1of10, logA, EvStats stats2of10] initialDashboard"
  by (simp add: deliverAt_def deliver_def logA_def)

text \<open>
  Claim C8, amended. Telemetry events are applied one by one in receipt order, with no
  reordering or coalescing: the counters after a sequence are those of the last event
  that carried counters, and the log is extended by the line of every event, in order.
  A \<^verbatim>\<open>log\<close> event with an embedded stats payload appends to the log and replaces the
  counters in one step. Delivering stats(1/10), log A, stats(2/10) in that order to a
  fresh console leaves the counters at 2/10 and exactly one log entry, A. Delivering the
  same three events with the two counters events exchanged leaves the counters at 1/10,
  a different final state.
\<close>

theorem telemetry_applied_in_receipt_order:
  "stats (deliver evs d) = last (stats d # List.map_filter (\<lambda>ce. statsOf (snd ce)) evs)
   \<and> logs (deliver evs d) = addLogs (List.map_filter logLineOf evs) (logs d)
   \<and> onmessage c (EvLog msg ty (Some x)) d = d\<lparr>logs := addLog c msg ty (logs d), stats := x\<rparr>
   \<and> stats (deliverAt [c1, c2, c3] [EvStats stats1of10, logA, EvStats stats2of10] initialDashboard)
       = stats2of10
   \<and> map message (logs (deliverAt [c1, c2, c3] [EvStats stats1of10, logA, EvStats stats2of10]
                          initialDashboard)) = [js ''A'']
   \<and> stats (deliverAt [c1, c2, c3] [EvStats stats2of10, logA, EvStats stats1of10] initialDashboard)
       = stats1of10
   \<and> deliverAt [c1, c2, c3] [EvStats stats2of10, logA, EvStats stats1of10] initialDashboard
       \<noteq> deliverAt [c1, c2, c3] [EvStats stats1of10, logA, EvStats stats2of10] initialDashboard"
proof -
  have ne: "stats1of10 \<noteq> stats2of10"
    by (simp add: stats1of10_def stats2of10_def)
  have a: "stats (deliverAt [c1, c2, c3] [EvStats stats1of10, logA, EvStats stats2of10] initialDashboard)
           = stats2of10"
    by (simp add: deliverAt_def deliver_def logA_def)
  have b: "stats (deliverAt [c1, c2, c3] [EvStats stats2of10, logA, EvStats stats1of10] initialDashboard)
           = stats1of10"
    by (simp add: deliverAt_def deliver_def logA_def)
  have l: "map message (logs (deliverAt [c1, c2, c3] [EvStats stats1of10, logA, EvStats stats2of10]
                                 initialDashboard)) = [js ''A'']"
    by (simp add: deliverAt_def deliver_def logA_def initialDashboard_def addLog_empty mkEntry_def)
  from a b ne
  have n: "deliverAt [c1, c2, c3] [EvStats stats2of10, logA, EvStats stats1of10] initialDashboard
       \<noteq> deliverAt [c1, c2, c3] [EvStats stats1of10, logA, EvStats stats2of10] initialDashboard"
    by metis
  have g: "onmessage c (EvLog msg ty (Some x)) d = d\<lparr>logs := addLog c msg ty (logs d), stats := x\<rparr>"
    by simp
  from a b l n g deliver_stats[of evs d] deliver_logs[of evs d] show ?thesis
    by blast
qed

theorem telemetry_applied_in_receipt_order_witness:
  "stats (deliver [(noon, EvStats stats1of10), (noon, EvLog (js ''B'') None (Some stats2of10))] running)
     = stats2of10
   \<and> map message (logs (deliver [(noon, EvStats stats1of10),
                                  (noon, EvLog (js ''B'') None (Some stats2of10))] running))
     = [js ''B'']"
proof -
  have s: "List.map_filter (\<lambda>ce. statsOf (snd ce))
             [(noon, EvStats stats1of10), (noon, EvLog (js ''B'') None (Some stats2of10))]
           = [stats1of10, stats2of10]"
    by simp
  have l: "List.map_filter logLineOf
             [(noon, EvStats stats1of10), (noon, EvLog (js ''B'') None (Some stats2of10))]
           = [(noon, js ''B'', None)]"
    by simp
  show ?thesis
    using telemetry_applied_in_receipt_order
            [of "[(noon, EvStats stats1of10), (noon, EvLog (js ''B'') None (Some stats2of10))]" running]
    by (simp add: s l addLogs_def running_def initialDashboard_def addLog_empty mkEntry_def)
qed

section \<open>Properties of the wizard's state machine\<close>

lemma handleFileUpload_navigated: "navigated (fst (handleFileUpload fileOpt resp w)) = navigated w"
  by (simp add: handleFileUpload_def Let_def split: option.splits response.splits extractReply.splits)

lemma handlePayment_navigated: "navigated (fst (handlePayment link dateNow w)) = navigated w"
  by (simp add: handlePayment_def Let_def)

lemma proceed_nondev:
  "handleProceedToPayment False dateNow resp w =
     ((if str_trim (messageTemplate w) = [] then w\<lparr>messageTemplate := defaultMessage\<rparr> else w)
        \<lparr>step := 3\<rparr>, [])"
  by (simp add: handleProceedToPayment_def Let_def)

lemma proceed_dev:
  "handleProceedToPayment True dateNow resp w =
     handleDevStartCampaign dateNow resp w
       (if str_trim (messageTemplate w) = [] then w\<lparr>messageTemplate := defaultMessage\<rparr> else w)"
  by (simp add: handleProceedToPayment_def Let_def)

text \<open>
  For an operator who pays, the only action that launches is the verification, and it is
  offered in step 4 only.
\<close>

lemma perform_launch_step:
  "\<not> launched w \<Longrightarrow> launched (perform False link a w) \<Longrightarrow> step w = 4"
  by (cases a)
     (auto simp: launched_def handlePlanSelect_def handleFileUpload_navigated
                 handlePayment_navigated proceed_nondev split: if_splits)

lemma run_Cons: "run dev link (a # acts) w = run dev link acts (perform dev link a w)"
  by (simp add: run_def)

lemma run_Nil: "run dev link [] w = w"
  by (simp add: run_def)

lemma launch_passes_verification:
  "\<not> launched w \<Longrightarrow> launched (run False link acts w) \<Longrightarrow>
   \<exists>k<length acts. step (run False link (take k acts) w) = 4
                  \<and> \<not> launched (run False link (take k acts) w)"
proof (induction acts arbitrary: w)
  case Nil
  then show ?case by (simp add: run_Nil)
next
  case (Cons a acts)
  show ?case
  proof (cases "launched (perform False link a w)")
    case True
    with Cons.prems have "step w = 4"
      by (auto dest: perform_launch_step)
    with Cons.prems show ?thesis
      by (intro exI[of _ 0]) (simp add: run_Nil)
  next
    case False
    from Cons.prems have "launched (run False link acts (perform False link a w))"
      by (simp add: run_Cons)
    from Cons.IH[OF False this] obtain k where k: "k < length acts"
      "step (run False link (take k acts) (perform False link a w)) = 4"
      "\<not> launched (run False link (take k acts) (perform False link a w))"
      by blast
    then show ?thesis
      by (intro exI[of _ "Suc k"]) (simp add: run_Cons)
  qed
qed

lemma opt_or_nonempty: "b \<noteq> [] \<Longrightarrow> opt_or a b \<noteq> []"
  by (simp add: opt_or_def str_or_def split: option.splits)

lemma dev_requests:
  "requests (snd (handleDevStartCampaign dateNow resp r w)) =
     [CampaignStart (extractedVoters r) (str_or (messageTemplate r) defaultMessage)
        (Some (js ''dev'')) (Some 999999) None]"
  by (simp add: handleDevStartCampaign_def Let_def split: response.splits startReply.splits)

lemma dev_success:
  "launched (fst (handleDevStartCampaign dateNow (Replied (StartSuccess cid)) r w))
   \<and> closed (fst (handleDevStartCampaign dateNow (Replied (StartSuccess cid)) r w))"
  by (simp add: handleDevStartCampaign_def Let_def launched_def)

lemma dev_failure:
  "(\<forall>cid. resp \<noteq> Replied (StartSuccess cid)) \<Longrightarrow>
   step (fst (handleDevStartCampaign dateNow resp r w)) = step w
   \<and> navigated (fst (handleDevStartCampaign dateNow resp r w)) = navigated w
   \<and> closed (fst (handleDevStartCampaign dateNow resp r w)) = closed w
   \<and> error (fst (handleDevStartCampaign dateNow resp r w)) \<noteq> []"
  by (auto simp: handleDevStartCampaign_def Let_def opt_or_nonempty js_def
           split: response.splits startReply.splits)

text \<open>
  Claim C9, as stated, fails for a bypass account whose start request is refused:
  confirming then leaves the wizard in the composition step (step 2), neither launched
  nor waiting for payment.
\<close>

theorem bypass_start_failure_stays_in_composition_counterexample:
  "step (fst (handleProceedToPayment True zeroClock (Replied (StartFailure None)) draft)) = 2
   \<and> navigated (fst (handleProceedToPayment True zeroClock (Replied (StartFailure None)) draft)) = None"
  by (simp add: proceed_dev dev_failure draft_def initModal_def)

text \<open>
  Claim C9, amended. From the composition step, confirming the message does one of two
  things. For an account that is not a bypass account the wizard advances to payment
  pending (step 3) and no request is sent. For a bypass account the start request is
  issued at once; if it succeeds the wizard is launched, and if it fails or throws the
  wizard stays in the composition step with an error shown. An operator who is not a
  bypass account never reaches the launch without passing through payment verification
  (step 4) first.
\<close>

theorem confirm_from_composition:
  "(\<not> isDevUser \<longrightarrow>
      step (fst (handleProceedToPayment isDevUser dateNow resp w)) = 3
      \<and> snd (handleProceedToPayment isDevUser dateNow resp w) = []
      \<and> navigated (fst (handleProceedToPayment isDevUser dateNow resp w)) = navigated w)
   \<and> (isDevUser \<longrightarrow>
      requests (snd (handleProceedToPayment isDevUser dateNow resp w)) =
        [CampaignStart (extractedVoters w) (str_or (messageTemplate w) defaultMessage)
           (Some (js ''dev'')) (Some 999999) None]
      \<and> (\<forall>cid. resp = Replied (StartSuccess cid) \<longrightarrow>
            launched (fst (handleProceedToPayment isDevUser dateNow resp w)))
      \<and> ((\<forall>cid. resp \<noteq> Replied (StartSuccess cid)) \<longrightarrow>
            step (fst (handleProceedToPayment isDevUser dateNow resp w)) = step w
            \<and> navigated (fst (handleProceedToPayment isDevUser dateNow resp w)) = navigated w
            \<and> error (fst (handleProceedToPayment isDevUser dateNow resp w)) \<noteq> []))
   \<and> (step w0 = 2 \<and> \<not> launched w0 \<and> launched (run False link acts w0) \<longrightarrow>
        (\<exists>k<length acts. step (run False link (take k acts) w0) = 4
                       \<and> \<not> launched (run False link (take k acts) w0)))"
proof -
  have a: "\<not> isDevUser \<longrightarrow>
      step (fst (handleProceedToPayment isDevUser dateNow resp w)) = 3
      \<and> snd (handleProceedToPayment isDevUser dateNow resp w) = []
      \<and> navigated (fst (handleProceedToPayment isDevUser dateNow resp w)) = navigated w"
    by (simp add: proceed_nondev)
  have b: "isDevUser \<longrightarrow>
      requests (snd (handleProceedToPayment isDevUser dateNow resp w)) =
        [CampaignStart (extractedVoters w) (str_or (messageTemplate w) defaultMessage)
           (Some (js ''dev'')) (Some 999999) None]
      \<and> (\<forall>cid. resp = Replied (StartSuccess cid) \<longrightarrow>
            launched (fst (handleProceedToPayment isDevUser dateNow resp w)))
      \<and> ((\<forall>cid. resp \<noteq> Replied (StartSuccess cid)) \<longrightarrow>
            step (fst (handleProceedToPayment isDevUser dateNow resp w)) = step w
            \<and> navigated (fst (handleProceedToPayment isDevUser dateNow resp w)) = navigated w
            \<and> error (fst (handleProceedToPayment isDevUser dateNow resp w)) \<noteq> [])"
    using dev_failure[of resp dateNow w
            "if str_trim (messageTemplate w) = [] then w\<lparr>messageTemplate := defaultMessage\<rparr> else w"]
    by (auto simp: proceed_dev dev_requests dev_success)
  have c: "step w0 = 2 \<and> \<not> launched w0 \<and> launched (run False link acts w0) \<longrightarrow>
        (\<exists>k<length acts. step (run False link (take k acts) w0) = 4
                       \<and> \<not> launched (run False link (take k acts) w0))"
    using launch_passes_verification[of w0 link acts] by blast
  from a b c show ?thesis by blast
qed

theorem confirm_from_composition_witness:
  "step (fst (handleProceedToPayment False zeroClock (Threw []) draft)) = 3
   \<and> snd (handleProceedToPayment False zeroClock (Threw []) draft) = []
   \<and> launched (fst (handleProceedToPayment True zeroClock (Replied (StartSuccess (js ''c1''))) draft))
   \<and> launched (run False payLink paidRun draft)
   \<and> (\<exists>k<length paidRun. step (run False payLink (take k paidRun) draft) = 4
                         \<and> \<not> launched (run False payLink (take k paidRun) draft))"
proof -
  have s: "step draft = 2 \<and> \<not> launched draft"
    by code_simp
  have l: "launched (run False payLink paidRun draft)"
    by code_simp
  show ?thesis
    using confirm_from_composition
            [where isDevUser = False and dateNow = zeroClock and resp = "Threw []" and w = draft
               and ?w0.0 = draft and link = payLink and acts = paidRun]
          confirm_from_composition
            [where isDevUser = True and dateNow = zeroClock
               and resp = "Replied (StartSuccess (js ''c1''))" and w = draft
               and ?w0.0 = draft and link = payLink and acts = paidRun]
          s l
    by simp
qed

end
